theory Spec2Isabelle
  imports Complex_Main
begin

section \<open>Common data: errors, dictionaries, configuration\<close>

text \<open>
  Exceptions of the Python program are values. Only subclasses of \<open>Exception\<close> occur;
  each carries its message (\<open>str(e)\<close>).
\<close>

datatype py_error =
    IndexError string
  | ValueError string
  | AttributeError string
  | OSError string

fun str_of :: "py_error \<Rightarrow> string" where
  "str_of (IndexError m) = m"
| "str_of (ValueError m) = m"
| "str_of (AttributeError m) = m"
| "str_of (OSError m) = m"

text \<open>
  A Python \<open>dict\<close> keeps its keys in insertion order, and the program iterates over
  \<open>items()\<close> and \<open>keys()\<close>, so a dictionary is an association list. \<open>d[k] = v\<close>
  replaces the value of a key that is present, where it stands, and appends a new key.
\<close>

type_synonym ('k, 'v) dict = "('k \<times> 'v) list"

fun dict_set :: "('k, 'v) dict \<Rightarrow> 'k \<Rightarrow> 'v \<Rightarrow> ('k, 'v) dict" where
  "dict_set [] k v = [(k, v)]"
| "dict_set ((k', v') # kvs) k v =
     (if k' = k then (k, v) # kvs else (k', v') # dict_set kvs k v)"

text \<open>The constants of \<open>config.py\<close> that the modelled functions read.\<close>

definition CLIMATE_VARIABLES :: "string list" where
  "CLIMATE_VARIABLES =
     [''aet'', ''def'', ''pet'', ''ppt'', ''q'', ''soil'', ''srad'', ''swe'',
      ''tmax'', ''tmin'', ''vap'', ''ws'', ''vpd'', ''PDSI'']"

definition SPATIAL_TOLERANCE :: real where
  "SPATIAL_TOLERANCE = 1 / 48"

definition LOG_EXTRACTION_FAILURES :: bool where
  "LOG_EXTRACTION_FAILURES = True"

section \<open>The world outside the program\<close>

text \<open>
  A gridded source, as \<open>xr.open_dataset\<close> presents it: the latitude and longitude
  axes, the time axis (of each time stamp only year and month are read) and the values of
  the variable, stored with dimensions \<open>(time, lat, lon)\<close> as the TerraClimate
  aggregates are. Values are kept abstract (\<open>'v\<close>): extraction only moves them.
  Coordinates are real numbers; rounding of floating-point subtraction is not represented.
\<close>

type_synonym timestamp = "int \<times> int"

record 'v dataset =
  ds_lat :: "real list"
  ds_lon :: "real list"
  ds_time :: "timestamp list"
  ds_values :: "nat \<Rightarrow> nat \<Rightarrow> nat \<Rightarrow> 'v"

text \<open>
  A row of the accession file as \<open>pd.read_csv\<close> delivers it, reduced to the three
  columns the program uses; a coordinate that is missing (NaN) is \<open>None\<close>.
\<close>

record csv_row =
  CS_number :: string
  latitude :: "real option"
  longitude :: "real option"

record accession =
  acc_id :: string
  acc_lat :: real
  acc_lon :: real

type_synonym spatial_index = "(string, nat \<times> nat) dict"

text \<open>
  Everything the program reads or writes: the accession file, the source of each variable
  (opening may fail), the cache file \<open>spatial_index.pkl\<close> (\<open>None\<close> when the file
  does not exist; \<open>pickle\<close> is taken to restore what it stored), the lines appended to
  \<open>extraction_failures.log\<close>, and the two settings \<open>START_YEAR\<close>, \<open>END_YEAR\<close>
  that \<open>main\<close> may overwrite.
\<close>

record 'v world =
  accessions_file :: "py_error + csv_row list"
  open_dataset :: "string \<Rightarrow> py_error + 'v dataset"
  cache_file :: "spatial_index option"
  failures_log :: "string list"
  START_YEAR :: "int option"
  END_YEAR :: "int option"

section \<open>spatial\_index.py\<close>

text \<open>
  \<open>load_accessions\<close>: rows with a missing latitude or longitude are dropped
  (\<open>dropna(subset=['latitude', 'longitude'])\<close>); nothing else is filtered. The
  positional renaming of unexpected header names is not represented.
\<close>

fun keep_row :: "csv_row \<Rightarrow> accession option" where
  "keep_row r =
     (case (latitude r, longitude r) of
        (Some la, Some lo) \<Rightarrow> Some \<lparr>acc_id = CS_number r, acc_lat = la, acc_lon = lo\<rparr>
      | _ \<Rightarrow> None)"

definition load_accessions :: "'v world \<Rightarrow> py_error + accession list" where
  "load_accessions w =
     (case accessions_file w of
        Inl e \<Rightarrow> Inl e
      | Inr df \<Rightarrow> Inr (List.map_filter keep_row df))"

definition get_grid_coordinates :: "'v dataset \<Rightarrow> real list \<times> real list" where
  "get_grid_coordinates nc_file = (ds_lat nc_file, ds_lon nc_file)"

text \<open>\<open>np.where(np.abs(grid - x) < tolerance)[0]\<close>: the matching positions, ascending.\<close>

definition matches :: "real list \<Rightarrow> real \<Rightarrow> real \<Rightarrow> nat list" where
  "matches grid x tolerance =
     filter (\<lambda>i. \<bar>grid ! i - x\<bar> < tolerance) [0..<length grid]"

text \<open>
  \<open>np.argmin\<close>: the position of the first minimum. It is only applied to non-empty
  arrays (the empty case has returned \<open>None\<close> before).
\<close>

fun argmin :: "real list \<Rightarrow> nat" where
  "argmin [] = 0"
| "argmin [x] = 0"
| "argmin (x # y # ys) =
     (let j = argmin (y # ys) in if x \<le> (y # ys) ! j then 0 else Suc j)"

definition find_nearest_grid_cell ::
  "real \<Rightarrow> real \<Rightarrow> real list \<Rightarrow> real list \<Rightarrow> real \<Rightarrow> (nat \<times> nat) option" where
  "find_nearest_grid_cell lat lon grid_lats grid_lons tolerance =
     (let lat_indices = matches grid_lats lat tolerance;
          lon_indices = matches grid_lons lon tolerance
      in if length lat_indices = 0 \<or> length lon_indices = 0 then None
         else if length lat_indices > 1 \<or> length lon_indices > 1 then
           Some (lat_indices ! argmin (map (\<lambda>i. \<bar>grid_lats ! i - lat\<bar>) lat_indices),
                 lon_indices ! argmin (map (\<lambda>i. \<bar>grid_lons ! i - lon\<bar>) lon_indices))
         else Some (lat_indices ! 0, lon_indices ! 0))"

text \<open>
  The loop of \<open>build_spatial_index\<close> (lines 139 to 153): the state is the dictionary
  and the list \<open>failed_accessions\<close>.
\<close>

definition index_step ::
  "real list \<Rightarrow> real list \<Rightarrow> spatial_index \<times> string list \<Rightarrow> accession
     \<Rightarrow> spatial_index \<times> string list" where
  "index_step grid_lats grid_lons st row =
     (case find_nearest_grid_cell (acc_lat row) (acc_lon row) grid_lats grid_lons
             SPATIAL_TOLERANCE of
        Some indices \<Rightarrow> (dict_set (fst st) (acc_id row) indices, snd st)
      | None \<Rightarrow> (fst st, snd st @ [acc_id row]))"

definition index_accessions ::
  "accession list \<Rightarrow> real list \<Rightarrow> real list \<Rightarrow> spatial_index \<times> string list" where
  "index_accessions accessions_df grid_lats grid_lons =
     foldl (index_step grid_lats grid_lons) ([], []) accessions_df"

text \<open>
  \<open>build_spatial_index\<close> returns the dictionary; the model also returns the list of
  failed accessions that the function prints, and the world with the cache file as the
  call leaves it.
\<close>

definition build_spatial_index ::
  "bool \<Rightarrow> 'v world \<Rightarrow> (py_error + spatial_index) \<times> string list \<times> 'v world" where
  "build_spatial_index use_cache w =
     (case (if use_cache then cache_file w else None) of
        Some cached \<Rightarrow> (Inr cached, [], w)
      | None \<Rightarrow>
         (case load_accessions w of
            Inl e \<Rightarrow> (Inl e, [], w)
          | Inr accessions_df \<Rightarrow>
             (case open_dataset w (CLIMATE_VARIABLES ! 0) of
                Inl e \<Rightarrow> (Inl e, [], w)
              | Inr ds \<Rightarrow>
                 (let (grid_lats, grid_lons) = get_grid_coordinates ds;
                      (spatial_index, failed_accessions) =
                         index_accessions accessions_df grid_lats grid_lons
                  in (Inr spatial_index, failed_accessions,
                      if use_cache then w\<lparr>cache_file := Some spatial_index\<rparr> else w)))))"

text \<open>
  Two abbreviations for the statements below: the cell that the loop computes for a row
  of the catalogue, and the position chosen on one axis (the first nearest of the
  positions within tolerance).
\<close>

definition cell_of :: "real list \<Rightarrow> real list \<Rightarrow> accession \<Rightarrow> (nat \<times> nat) option" where
  "cell_of grid_lats grid_lons row =
     find_nearest_grid_cell (acc_lat row) (acc_lon row) grid_lats grid_lons SPATIAL_TOLERANCE"

definition nearest :: "real list \<Rightarrow> real \<Rightarrow> real \<Rightarrow> nat" where
  "nearest grid x t =
     matches grid x t ! argmin (map (\<lambda>i. \<bar>grid ! i - x\<bar>) (matches grid x t))"

section \<open>extract.py\<close>

text \<open>
  A long-format table has the columns \<open>accession_id\<close>, \<open>year\<close>, \<open>month\<close> and the
  variable; a row is the tuple of the four.
\<close>

type_synonym 'v long_row = "string \<times> int \<times> int \<times> 'v"
type_synonym 'v long_table = "'v long_row list"

definition get_time_coordinates :: "'v dataset \<Rightarrow> timestamp list" where
  "get_time_coordinates nc_file = ds_time nc_file"

text \<open>
  \<open>nc_dataset[variable].isel(lat=lat_idx, lon=lon_idx).values\<close> with two integers: the
  series of the cell along the time axis; a position outside the grid raises.
\<close>

definition isel :: "'v dataset \<Rightarrow> nat \<Rightarrow> nat \<Rightarrow> py_error + 'v list" where
  "isel ds lat_idx lon_idx =
     (if lat_idx < length (ds_lat ds) \<and> lon_idx < length (ds_lon ds)
      then Inr (map (\<lambda>t. ds_values ds t lat_idx lon_idx) [0..<length (ds_time ds)])
      else Inl (IndexError ''index out of bounds''))"

definition extract_timeseries_for_accession ::
  "'v dataset \<Rightarrow> string \<Rightarrow> nat \<Rightarrow> nat \<Rightarrow> timestamp list \<Rightarrow> py_error + 'v long_table" where
  "extract_timeseries_for_accession nc_dataset accession_id lat_idx lon_idx time_index =
     (case isel nc_dataset lat_idx lon_idx of
        Inl e \<Rightarrow> Inl e
      | Inr data \<Rightarrow>
          Inr (map (\<lambda>((year, month), v). (accession_id, year, month, v))
                 (zip time_index data)))"

text \<open>The loop over \<open>spatial_index.items()\<close>: one indexed read per accession.\<close>

fun extract_each ::
  "'v dataset \<Rightarrow> spatial_index \<Rightarrow> timestamp list \<Rightarrow> py_error + 'v long_table list" where
  "extract_each ds [] time_index = Inr []"
| "extract_each ds ((accession_id, (lat_idx, lon_idx)) # items) time_index =
     (case extract_timeseries_for_accession ds accession_id lat_idx lon_idx time_index of
        Inl e \<Rightarrow> Inl e
      | Inr df \<Rightarrow>
         (case extract_each ds items time_index of
            Inl e \<Rightarrow> Inl e
          | Inr all_data \<Rightarrow> Inr (df # all_data)))"

text \<open>
  \<open>extract_variable_sequential\<close>. When a start or an end year is given, the mask
  over the time axis is built as a \<open>pandas\<close> \<open>Series\<close> and handed to
  \<open>ds.sel(time=time_mask)\<close>; \<open>xarray\<close> takes a \<open>Series\<close> for a dict-like
  indexer, which it refuses on a plain dimension, so the call raises and no filtered
  extraction returns. Without a filter, besides a failing \<open>open_dataset\<close> and a
  failing read, two lines raise: \<open>time_index[0]\<close> on an empty time axis, and
  \<open>pd.concat\<close> of an empty list (an empty spatial index).
\<close>

definition extract_variable_sequential ::
  "string \<Rightarrow> spatial_index \<Rightarrow> int option \<Rightarrow> int option \<Rightarrow> 'v world
     \<Rightarrow> py_error + 'v long_table" where
  "extract_variable_sequential variable spatial_index start_year end_year w =
     (case open_dataset w variable of
        Inl e \<Rightarrow> Inl e
      | Inr ds \<Rightarrow>
         (let time_index = get_time_coordinates ds
          in if start_year \<noteq> None \<or> end_year \<noteq> None
             then Inl (ValueError
               ''cannot use a dict-like object for selection on a dimension that does not have a MultiIndex'')
             else if time_index = []
             then Inl (IndexError ''index 0 is out of bounds for axis 0 with size 0'')
             else (case extract_each ds spatial_index time_index of
                     Inl e \<Rightarrow> Inl e
                   | Inr all_data \<Rightarrow>
                       if all_data = [] then Inl (ValueError ''No objects to concatenate'')
                       else Inr (concat all_data))))"

definition extract_variable_parallel_accessions ::
  "string \<Rightarrow> spatial_index \<Rightarrow> 'v world \<Rightarrow> py_error + 'v long_table" where
  "extract_variable_parallel_accessions variable spatial_index w =
     extract_variable_sequential variable spatial_index None None w"

text \<open>
  \<open>extract_all_variables\<close>. \<open>extract_one\<close> is the body of the \<open>try\<close>,
  \<open>extract_step\<close> one turn of the loop with its \<open>except Exception\<close>: the state is the
  dictionary \<open>results\<close> and the lines of \<open>extraction_failures.log\<close>. A failure of
  \<open>build_spatial_index\<close> is outside the \<open>try\<close> and ends the call.
\<close>

definition extract_one ::
  "bool \<Rightarrow> spatial_index \<Rightarrow> 'v world \<Rightarrow> string \<Rightarrow> py_error + 'v long_table" where
  "extract_one sequential spatial_index w var =
     (if sequential
      then extract_variable_sequential var spatial_index (START_YEAR w) (END_YEAR w) w
      else extract_variable_parallel_accessions var spatial_index w)"

definition extract_step ::
  "bool \<Rightarrow> spatial_index \<Rightarrow> 'v world \<Rightarrow> (string, 'v long_table) dict \<times> string list
     \<Rightarrow> string \<Rightarrow> (string, 'v long_table) dict \<times> string list" where
  "extract_step sequential spatial_index w st var =
     (case extract_one sequential spatial_index w var of
        Inr df \<Rightarrow> (dict_set (fst st) var df, snd st)
      | Inl e \<Rightarrow>
          (fst st,
           if LOG_EXTRACTION_FAILURES then snd st @ [var @ '': '' @ str_of e] else snd st))"

definition extract_all_variables ::
  "string list option \<Rightarrow> bool \<Rightarrow> bool \<Rightarrow> 'v world
     \<Rightarrow> (py_error + (string, 'v long_table) dict) \<times> 'v world" where
  "extract_all_variables variables use_cached_index sequential w =
     (let vars = (case variables of None \<Rightarrow> CLIMATE_VARIABLES | Some vs \<Rightarrow> vs);
          (built, failed_accessions, w1) = build_spatial_index use_cached_index w
      in case built of
           Inl e \<Rightarrow> (Inl e, w1)
         | Inr spatial_index \<Rightarrow>
             (let (results, log) =
                    foldl (extract_step sequential spatial_index w1) ([], failures_log w1) vars
              in (Inr results, w1\<lparr>failures_log := log\<rparr>)))"

text \<open>
  \<open>extract_vectorized_all_locations\<close>. With two index arrays over the new dimension
  \<open>accession\<close>, \<open>isel\<close> reads pointwise; the new dimension takes the place of
  \<open>lat\<close> and \<open>lon\<close>, so for a variable stored as \<open>(time, lat, lon)\<close> the result has
  the shape \<open>(n_times, n_accessions)\<close>: one row per time, one column per accession.
\<close>

definition isel_points :: "'v dataset \<Rightarrow> nat list \<Rightarrow> nat list \<Rightarrow> py_error + 'v list list" where
  "isel_points ds lat_indices lon_indices =
     (if (\<forall>r\<in>set lat_indices. r < length (ds_lat ds)) \<and>
         (\<forall>c\<in>set lon_indices. c < length (ds_lon ds))
      then Inr (map (\<lambda>t. map (\<lambda>(r, c). ds_values ds t r c) (zip lat_indices lon_indices))
                  [0..<length (ds_time ds)])
      else Inl (IndexError ''index out of bounds''))"

definition np_repeat :: "'a list \<Rightarrow> nat \<Rightarrow> 'a list" where
  "np_repeat xs n = concat (map (replicate n) xs)"

definition np_tile :: "'a list \<Rightarrow> nat \<Rightarrow> 'a list" where
  "np_tile xs n = concat (replicate n xs)"

text \<open>
  Lines 222 to 244: the three arrays \<open>accession_array\<close>, \<open>time_array\<close> and
  \<open>data_array\<close> (\<open>flatten\<close> reads the two-dimensional array row by row).
\<close>

definition vectorized_arrays ::
  "string \<Rightarrow> spatial_index \<Rightarrow> 'v world
     \<Rightarrow> py_error + (string list \<times> timestamp list \<times> 'v list)" where
  "vectorized_arrays variable spatial_index w =
     (case open_dataset w variable of
        Inl e \<Rightarrow> Inl e
      | Inr ds \<Rightarrow>
         (let time_index = get_time_coordinates ds;
              accession_ids = map fst spatial_index;
              lat_indices = map (\<lambda>kv. fst (snd kv)) spatial_index;
              lon_indices = map (\<lambda>kv. snd (snd kv)) spatial_index
          in case isel_points ds lat_indices lon_indices of
               Inl e \<Rightarrow> Inl e
             | Inr data \<Rightarrow>
                 (let n_accessions = length accession_ids;
                      n_times = length time_index
                  in Inr (np_repeat accession_ids n_times,
                          np_tile time_index n_accessions,
                          concat data))))"

text \<open>
  Lines 247 to 252 build the frame from \<open>time_array.year\<close> and \<open>time_array.month\<close>.
  \<open>np.tile\<close> returns a plain \<open>numpy.ndarray\<close> (of \<open>datetime64\<close> values), not the
  \<open>DatetimeIndex\<close> it was given, and an \<open>ndarray\<close> has no attribute \<open>year\<close>: the
  attribute access raises, and no frame is built.
\<close>

definition extract_vectorized_all_locations ::
  "string \<Rightarrow> spatial_index \<Rightarrow> 'v world \<Rightarrow> py_error + 'v long_table" where
  "extract_vectorized_all_locations variable spatial_index w =
     (case vectorized_arrays variable spatial_index w of
        Inl e \<Rightarrow> Inl e
      | Inr (accession_array, time_array, data_array) \<Rightarrow>
          Inl (AttributeError ''numpy.ndarray object has no attribute year''))"

text \<open>
  The rows that the three arrays would give when put side by side, as the frame of lines
  247 to 252 pairs them (position by position).
\<close>

definition rows_of_arrays :: "string list \<times> timestamp list \<times> 'v list \<Rightarrow> 'v long_table" where
  "rows_of_arrays arrays =
     (case arrays of (accession_array, time_array, data_array) \<Rightarrow>
        map (\<lambda>(accession_id, (year, month), v). (accession_id, year, month, v))
          (zip accession_array (zip time_array data_array)))"

section \<open>transform.py\<close>

text \<open>
  A value of a numeric column is a number or one of the two infinities of IEEE
  arithmetic; a cell holds a value or is missing (NaN), \<open>None\<close>. Numbers are real:
  rounding, overflow and the sign of zero are not represented. Arithmetic on columns is
  element by element and follows IEEE: a missing operand gives a missing result, and so
  do the sum of opposite infinities, the quotient of two infinities and the quotient of
  zero by zero; a number other than zero divided by zero is infinite.
\<close>

datatype fval = Num real | PInf | NInf

type_synonym cell = "fval option"

fun cell_neg :: "cell \<Rightarrow> cell" where
  "cell_neg (Some (Num x)) = Some (Num (- x))"
| "cell_neg (Some PInf) = Some NInf"
| "cell_neg (Some NInf) = Some PInf"
| "cell_neg None = None"

fun cell_add :: "cell \<Rightarrow> cell \<Rightarrow> cell" where
  "cell_add (Some (Num x)) (Some (Num y)) = Some (Num (x + y))"
| "cell_add (Some (Num x)) (Some PInf) = Some PInf"
| "cell_add (Some (Num x)) (Some NInf) = Some NInf"
| "cell_add (Some PInf) (Some (Num y)) = Some PInf"
| "cell_add (Some PInf) (Some PInf) = Some PInf"
| "cell_add (Some PInf) (Some NInf) = None"
| "cell_add (Some NInf) (Some (Num y)) = Some NInf"
| "cell_add (Some NInf) (Some PInf) = None"
| "cell_add (Some NInf) (Some NInf) = Some NInf"
| "cell_add None _ = None"
| "cell_add _ None = None"

definition cell_sub :: "cell \<Rightarrow> cell \<Rightarrow> cell" where
  "cell_sub a b = cell_add a (cell_neg b)"

fun cell_div :: "cell \<Rightarrow> cell \<Rightarrow> cell" where
  "cell_div (Some (Num x)) (Some (Num y)) =
     (if y \<noteq> 0 then Some (Num (x / y))
      else if x > 0 then Some PInf
      else if x < 0 then Some NInf
      else None)"
| "cell_div (Some (Num x)) (Some PInf) = Some (Num 0)"
| "cell_div (Some (Num x)) (Some NInf) = Some (Num 0)"
| "cell_div (Some PInf) (Some (Num y)) = (if y \<ge> 0 then Some PInf else Some NInf)"
| "cell_div (Some NInf) (Some (Num y)) = (if y \<ge> 0 then Some NInf else Some PInf)"
| "cell_div (Some PInf) (Some PInf) = None"
| "cell_div (Some PInf) (Some NInf) = None"
| "cell_div (Some NInf) (Some PInf) = None"
| "cell_div (Some NInf) (Some NInf) = None"
| "cell_div None _ = None"
| "cell_div _ None = None"

fun cell_square :: "cell \<Rightarrow> cell" where
  "cell_square (Some (Num x)) = Some (Num (x * x))"
| "cell_square (Some PInf) = Some PInf"
| "cell_square (Some NInf) = Some PInf"
| "cell_square None = None"

fun cell_sqrt :: "cell \<Rightarrow> cell" where
  "cell_sqrt (Some (Num x)) = (if x \<ge> 0 then Some (Num (sqrt x)) else None)"
| "cell_sqrt (Some PInf) = Some PInf"
| "cell_sqrt (Some NInf) = None"
| "cell_sqrt None = None"

text \<open>The order of the values, for minimum, maximum and median.\<close>

fun fval_le :: "fval \<Rightarrow> fval \<Rightarrow> bool" where
  "fval_le NInf _ = True"
| "fval_le (Num x) NInf = False"
| "fval_le (Num x) (Num y) = (x \<le> y)"
| "fval_le (Num x) PInf = True"
| "fval_le PInf PInf = True"
| "fval_le PInf _ = False"

definition fval_min :: "fval \<Rightarrow> fval \<Rightarrow> fval" where
  "fval_min a b = (if fval_le a b then a else b)"

definition fval_max :: "fval \<Rightarrow> fval \<Rightarrow> fval" where
  "fval_max a b = (if fval_le a b then b else a)"

fun fval_insert :: "fval \<Rightarrow> fval list \<Rightarrow> fval list" where
  "fval_insert v [] = [v]"
| "fval_insert v (u # us) = (if fval_le v u then v # u # us else u # fval_insert v us)"

fun fval_sort :: "fval list \<Rightarrow> fval list" where
  "fval_sort [] = []"
| "fval_sort (v # vs) = fval_insert v (fval_sort vs)"

text \<open>
  A wide frame: every row has the key \<open>(accession_id, year, month)\<close> and a cell for each
  value column; \<open>value_columns\<close> lists the columns after the three key columns, in
  order. A cell of a name that is not a column is never read.
\<close>

type_synonym key = "string \<times> int \<times> int"

record wrow =
  row_key :: key
  vals :: "string \<Rightarrow> cell"

record frame =
  value_columns :: "string list"
  rows :: "wrow list"

definition key_columns :: "string list" where
  "key_columns = [''accession_id'', ''year'', ''month'']"

definition df_columns :: "frame \<Rightarrow> string list" where
  "df_columns df = key_columns @ value_columns df"

definition key_of :: "'v long_row \<Rightarrow> key" where
  "key_of r = (case r of (accession_id, year, month, v) \<Rightarrow> (accession_id, year, month))"

definition value_of :: "'v long_row \<Rightarrow> 'v" where
  "value_of r = (case r of (accession_id, year, month, v) \<Rightarrow> v)"

text \<open>\<open>variable_data[first_var].copy()\<close>: the long table of a variable as a frame.\<close>

definition frame_of_long :: "string \<Rightarrow> cell long_table \<Rightarrow> frame" where
  "frame_of_long var t =
     \<lparr>value_columns = [var],
      rows = map (\<lambda>r. \<lparr>row_key = key_of r, vals = (\<lambda>c. None)(var := value_of r)\<rparr>) t\<rparr>"

text \<open>
  \<open>result_df.merge(df[[...]], on=['accession_id', 'year', 'month'], how='outer')\<close>:
  a row of the left frame is paired with every row of the right table that has its key,
  and kept with a missing cell when there is none; a row of the right table whose key
  is not in the left frame comes with all the left columns missing. The order in which
  \<open>pandas\<close> returns the rows (sorted by key) is not represented.
\<close>

definition left_rows :: "string \<Rightarrow> cell long_table \<Rightarrow> wrow \<Rightarrow> wrow list" where
  "left_rows var right l =
     (case filter (\<lambda>r. key_of r = row_key l) right of
        [] \<Rightarrow> [l\<lparr>vals := (vals l)(var := None)\<rparr>]
      | ms \<Rightarrow> map (\<lambda>r. l\<lparr>vals := (vals l)(var := value_of r)\<rparr>) ms)"

definition merge_outer :: "frame \<Rightarrow> string \<Rightarrow> cell long_table \<Rightarrow> frame" where
  "merge_outer left var right =
     \<lparr>value_columns = value_columns left @ [var],
      rows =
        concat (map (left_rows var right) (rows left))
        @ map (\<lambda>r. \<lparr>row_key = key_of r, vals = (\<lambda>c. None)(var := value_of r)\<rparr>)
            (filter (\<lambda>r. key_of r \<notin> row_key ` set (rows left)) right)\<rparr>"

definition merge_variables_wide_format ::
  "(string, cell long_table) dict \<Rightarrow> py_error + frame" where
  "merge_variables_wide_format variable_data =
     (case variable_data of
        [] \<Rightarrow> Inl (IndexError ''list index out of range'')
      | (first_var, t) # others \<Rightarrow>
          Inr (foldl (\<lambda>result_df (var, df). merge_outer result_df var df)
                 (frame_of_long first_var t) others))"

text \<open>\<open>create_temporal_features\<close>: the season of a month, and the quarter.\<close>

definition season_map :: "int \<Rightarrow> string option" where
  "season_map month =
     (if month = 12 \<or> month = 1 \<or> month = 2 then Some ''Winter''
      else if month = 3 \<or> month = 4 \<or> month = 5 then Some ''Spring''
      else if month = 6 \<or> month = 7 \<or> month = 8 then Some ''Summer''
      else if month = 9 \<or> month = 10 \<or> month = 11 then Some ''Fall''
      else None)"

definition quarter_of :: "int \<Rightarrow> int" where
  "quarter_of month = (month - 1) div 3 + 1"

text \<open>
  The statistics of \<open>agg\<close>, by name. Each skips the missing cells of its group and
  is computed from the values that remain with the arithmetic above; the mean of no value
  is missing, and so is the (sample) standard deviation of fewer than two values.
\<close>

definition present :: "cell list \<Rightarrow> fval list" where
  "present cs = List.map_filter (\<lambda>c. c) cs"

definition cell_sum :: "cell list \<Rightarrow> cell" where
  "cell_sum cs = foldl cell_add (Some (Num 0)) cs"

definition stat_mean :: "fval list \<Rightarrow> cell" where
  "stat_mean xs =
     (if xs = [] then None
      else cell_div (cell_sum (map Some xs)) (Some (Num (real (length xs)))))"

definition stat_std :: "fval list \<Rightarrow> cell" where
  "stat_std xs =
     (if length xs < 2 then None
      else (let m = stat_mean xs
            in cell_sqrt (cell_div
                 (cell_sum (map (\<lambda>x. cell_square (cell_sub (Some x) m)) xs))
                 (Some (Num (real (length xs - 1)))))))"

definition stat_min :: "fval list \<Rightarrow> cell" where
  "stat_min xs = (case xs of [] \<Rightarrow> None | x # r \<Rightarrow> Some (foldl fval_min x r))"

definition stat_max :: "fval list \<Rightarrow> cell" where
  "stat_max xs = (case xs of [] \<Rightarrow> None | x # r \<Rightarrow> Some (foldl fval_max x r))"

definition stat_median :: "fval list \<Rightarrow> cell" where
  "stat_median xs =
     (let s = fval_sort xs; n = length xs
      in if n = 0 then None
         else if odd n then Some (s ! (n div 2))
         else cell_div (cell_add (Some (s ! (n div 2 - 1))) (Some (s ! (n div 2))))
                (Some (Num 2)))"

definition apply_stat :: "string \<Rightarrow> fval list \<Rightarrow> cell" where
  "apply_stat name xs =
     (if name = ''mean'' then stat_mean xs
      else if name = ''std'' then stat_std xs
      else if name = ''min'' then stat_min xs
      else if name = ''max'' then stat_max xs
      else if name = ''median'' then stat_median xs
      else None)"

text \<open>
  The result of \<open>groupby(...).agg(...).reset_index()\<close> with flattened column names: a
  row has the values of the group columns and, per variable and statistic, a cell.
\<close>

datatype gval = GStr string | GInt int

record arow =
  group :: "gval list"
  stats :: "(string \<times> cell) list"

record aframe =
  group_columns :: "string list"
  stat_columns :: "string list"
  arows :: "arow list"

text \<open>\<open>'_'.join(col).strip('_')\<close> for a column \<open>(var, stat)\<close>.\<close>

definition strip_underscores :: "string \<Rightarrow> string" where
  "strip_underscores s =
     rev (dropWhile (\<lambda>c. c = CHR ''_'') (rev (dropWhile (\<lambda>c. c = CHR ''_'') s)))"

definition flat_name :: "string \<Rightarrow> string \<Rightarrow> string" where
  "flat_name var stat = strip_underscores (var @ ''_'' @ stat)"

text \<open>
  Grouping: \<open>keyf\<close> gives the values of the group columns of a row, \<open>None\<close> when one
  of them is missing (such rows are dropped by \<open>groupby\<close>). There is one row per
  distinct group; the order of the groups (sorted, in \<open>pandas\<close>) is not represented.
\<close>

definition group_keys :: "(wrow \<Rightarrow> gval list option) \<Rightarrow> wrow list \<Rightarrow> gval list list" where
  "group_keys keyf rs = remdups (List.map_filter keyf rs)"

definition group_cells ::
  "(wrow \<Rightarrow> gval list option) \<Rightarrow> frame \<Rightarrow> gval list \<Rightarrow> string \<Rightarrow> fval list" where
  "group_cells keyf df g var =
     present (map (\<lambda>r. vals r var) (filter (\<lambda>r. keyf r = Some g) (rows df)))"

definition aggregate ::
  "(wrow \<Rightarrow> gval list option) \<Rightarrow> string list \<Rightarrow> string list \<Rightarrow> string list \<Rightarrow> frame \<Rightarrow> aframe" where
  "aggregate keyf group_cols variables stat_names df =
     \<lparr>group_columns = group_cols,
      stat_columns = concat (map (\<lambda>var. map (flat_name var) stat_names) variables),
      arows = map (\<lambda>g.
          \<lparr>group = g,
           stats = concat (map (\<lambda>var.
               map (\<lambda>s. (flat_name var s, apply_stat s (group_cells keyf df g var))) stat_names)
             variables)\<rparr>)
        (group_keys keyf (rows df))\<rparr>"

definition by_accession :: "wrow \<Rightarrow> gval list option" where
  "by_accession r = Some [GStr (fst (row_key r))]"

definition by_year :: "wrow \<Rightarrow> gval list option" where
  "by_year r = Some [GStr (fst (row_key r)), GInt (fst (snd (row_key r)))]"

definition by_season :: "wrow \<Rightarrow> gval list option" where
  "by_season r =
     map_option (\<lambda>s. [GStr (fst (row_key r)), GInt (fst (snd (row_key r))), GStr s])
       (season_map (snd (snd (row_key r))))"

definition by_quarter :: "wrow \<Rightarrow> gval list option" where
  "by_quarter r =
     Some [GStr (fst (row_key r)), GInt (fst (snd (row_key r))),
           GInt (quarter_of (snd (snd (row_key r))))]"

text \<open>
  \<open>compute_temporal_aggregates\<close>. For the quarter, \<open>pd.to_datetime\<close> assembles a
  date from year and month and raises on a month outside 1 to 12.
\<close>

definition compute_temporal_aggregates ::
  "frame \<Rightarrow> string list \<Rightarrow> string \<Rightarrow> py_error + aframe" where
  "compute_temporal_aggregates df variables aggregation_period =
     (if aggregation_period = ''year'' then
        Inr (aggregate by_year [''accession_id'', ''year''] variables
               [''mean'', ''std'', ''min'', ''max''] df)
      else if aggregation_period = ''season'' then
        Inr (aggregate by_season [''accession_id'', ''year'', ''season''] variables
               [''mean'', ''std'', ''min'', ''max''] df)
      else if aggregation_period = ''quarter'' then
        (if list_all (\<lambda>r. 1 \<le> snd (snd (row_key r)) \<and> snd (snd (row_key r)) \<le> 12) (rows df)
         then Inr (aggregate by_quarter [''accession_id'', ''year'', ''quarter''] variables
                     [''mean'', ''std'', ''min'', ''max''] df)
         else Inl (ValueError ''cannot assemble the datetimes''))
      else Inl (ValueError (''Unknown aggregation period: '' @ aggregation_period)))"

definition compute_climate_summaries :: "frame \<Rightarrow> string list \<Rightarrow> aframe" where
  "compute_climate_summaries df variables =
     aggregate by_accession [''accession_id''] variables
       [''mean'', ''std'', ''min'', ''max'', ''median''] df"

text \<open>
  \<open>df[name] = ...\<close>: the column is appended when the name is new and overwritten when
  it is not; the new cells are computed from the row.
\<close>

definition set_column :: "frame \<Rightarrow> string \<Rightarrow> (wrow \<Rightarrow> cell) \<Rightarrow> frame" where
  "set_column df name f =
     \<lparr>value_columns =
        (if name \<in> set (df_columns df) then value_columns df else value_columns df @ [name]),
      rows = map (\<lambda>r. r\<lparr>vals := (vals r)(name := f r)\<rparr>) (rows df)\<rparr>"

definition aridity :: "wrow \<Rightarrow> cell" where
  "aridity r = cell_div (vals r ''pet'') (cell_add (vals r ''ppt'') (Some (Num (1 / 10))))"

definition add_derived_climate_indices :: "frame \<Rightarrow> frame" where
  "add_derived_climate_indices df0 =
     (let df1 = (if ''pet'' \<in> set (df_columns df0) \<and> ''ppt'' \<in> set (df_columns df0)
                 then set_column df0 ''aridity_index'' aridity else df0);
          df2 = (if ''ppt'' \<in> set (df_columns df1) \<and> ''aet'' \<in> set (df_columns df1)
                 then set_column df1 ''water_balance''
                        (\<lambda>r. cell_sub (vals r ''ppt'') (vals r ''aet''))
                 else df1);
          df3 = (if ''tmax'' \<in> set (df_columns df2) \<and> ''tmin'' \<in> set (df_columns df2)
                 then set_column df2 ''temp_range''
                        (\<lambda>r. cell_sub (vals r ''tmax'') (vals r ''tmin''))
                 else df2);
          df4 = (if ''soil'' \<in> set (df_columns df3) \<and> ''def'' \<in> set (df_columns df3)
                 then set_column df3 ''moisture_availability''
                        (\<lambda>r. cell_sub (vals r ''soil'') (vals r ''def''))
                 else df3)
      in df4)"

text \<open>\<open>prepare_for_gwas\<close> returns the monthly frame or an aggregated one.\<close>

datatype table = Monthly frame | Aggregated aframe

definition climate_vars_of :: "frame \<Rightarrow> string list" where
  "climate_vars_of df =
     filter (\<lambda>col. col \<notin> set [''accession_id'', ''year'', ''month'', ''season'', ''quarter''])
       (df_columns df)"

definition prepare_for_gwas ::
  "(string, cell long_table) dict \<Rightarrow> string \<Rightarrow> bool \<Rightarrow> py_error + table" where
  "prepare_for_gwas variable_data aggregation add_derived =
     (case merge_variables_wide_format variable_data of
        Inl e \<Rightarrow> Inl e
      | Inr merged \<Rightarrow>
         (let df = (if add_derived then add_derived_climate_indices merged else merged);
              climate_vars = climate_vars_of df
          in if aggregation = ''summary'' then
               Inr (Aggregated (compute_climate_summaries df climate_vars))
             else if aggregation = ''annual'' then
               (case compute_temporal_aggregates df climate_vars ''year'' of
                  Inl e \<Rightarrow> Inl e | Inr a \<Rightarrow> Inr (Aggregated a))
             else if aggregation = ''seasonal'' then
               (case compute_temporal_aggregates df climate_vars ''season'' of
                  Inl e \<Rightarrow> Inl e | Inr a \<Rightarrow> Inr (Aggregated a))
             else if aggregation = ''monthly'' then Inr (Monthly df)
             else Inl (ValueError (''Unknown aggregation type: '' @ aggregation))))"

definition output_columns :: "table \<Rightarrow> string list" where
  "output_columns t =
     (case t of
        Monthly df \<Rightarrow> df_columns df
      | Aggregated a \<Rightarrow> group_columns a @ stat_columns a)"

text \<open>
  Notions for the statements below. \<open>merged_ok vd df\<close>: the frame has the columns of
  the tables of \<open>vd\<close>, its keys are the keys of all the tables, and in every row the
  cell of a variable is a value that the variable's table has for the key of the row,
  or missing when the table has no row for that key. \<open>column df c\<close>: the cells of a
  column, row by row. \<open>grouped keyf stat_names variables df out\<close>: the aggregated frame
  has exactly one row per group of \<open>df\<close>, and in each row, for every variable and
  every statistic of \<open>stat_names\<close>, that statistic of the variable's cells in the
  group, under the flattened name.
\<close>

definition merged_ok :: "(string, cell long_table) dict \<Rightarrow> frame \<Rightarrow> bool" where
  "merged_ok vd df \<longleftrightarrow>
     value_columns df = map fst vd \<and>
     row_key ` set (rows df) = (\<Union>p\<in>set vd. key_of ` set (snd p)) \<and>
     (\<forall>r\<in>set (rows df). \<forall>p\<in>set vd.
        (\<exists>x\<in>set (snd p). key_of x = row_key r \<and> vals r (fst p) = value_of x) \<or>
        (row_key r \<notin> key_of ` set (snd p) \<and> vals r (fst p) = None))"

definition column :: "frame \<Rightarrow> string \<Rightarrow> cell list" where
  "column df c = map (\<lambda>r. vals r c) (rows df)"

definition grouped ::
  "(wrow \<Rightarrow> gval list option) \<Rightarrow> string list \<Rightarrow> string list \<Rightarrow> frame \<Rightarrow> aframe \<Rightarrow> bool" where
  "grouped keyf stat_names variables df out \<longleftrightarrow>
     distinct (map group (arows out)) \<and>
     set (map group (arows out)) = {g. \<exists>r\<in>set (rows df). keyf r = Some g} \<and>
     stat_columns out = concat (map (\<lambda>var. map (flat_name var) stat_names) variables) \<and>
     (\<forall>a\<in>set (arows out).
        stats a = concat (map (\<lambda>var.
            map (\<lambda>s. (flat_name var s, apply_stat s (group_cells keyf df (group a) var)))
              stat_names) variables))"

section \<open>main.py\<close>

text \<open>
  The command line after \<open>argparse\<close> has read it: the strings given for
  \<open>--aggregation\<close> and \<open>--format\<close>, the flags, the years, and the list of variables
  (the splitting of \<open>--variables\<close> at commas is not represented). Both
  \<open>--aggregation\<close> and \<open>--format\<close> are declared with \<open>choices\<close>:
  \<open>parse_args\<close> ends the program with status 2 on any other value, which is
  \<open>None\<close> here.
\<close>

record args =
  arg_variables :: "string list option"
  arg_aggregation :: string
  arg_format :: string
  arg_no_validation :: bool
  arg_rebuild_index :: bool
  arg_derived :: bool
  arg_start_year :: "int option"
  arg_end_year :: "int option"

definition aggregation_choices :: "string list" where
  "aggregation_choices = [''summary'', ''annual'', ''seasonal'', ''monthly'']"

definition format_choices :: "string list" where
  "format_choices = [''parquet'', ''csv'', ''both'']"

definition parse_args :: "args \<Rightarrow> args option" where
  "parse_args given =
     (if arg_aggregation given \<in> set aggregation_choices \<and>
         arg_format given \<in> set format_choices
      then Some given else None)"

text \<open>
  The body of \<open>main\<close> after \<open>parse_args\<close>. The result is the exit status and the
  numbers of the steps announced by \<open>print_step\<close>, in order. An exception in a step is
  caught at the end of \<open>main\<close> and gives status 1, and so does an empty extraction.
  Of \<open>validate_extraction\<close> (\<open>validate.py\<close>) only whether it raises is represented,
  as a parameter; writing the files of step 5 is taken to succeed.
\<close>

definition override :: "int option \<Rightarrow> int option \<Rightarrow> int option" where
  "override given configured =
     (case given of
        Some y \<Rightarrow> if y \<noteq> 0 then Some y else configured
      | None \<Rightarrow> configured)"

definition pipeline ::
  "((string, cell long_table) dict \<Rightarrow> py_error option) \<Rightarrow> args \<Rightarrow> cell world
     \<Rightarrow> int \<times> nat list" where
  "pipeline validate_extraction a w =
     (let w0 = w\<lparr>START_YEAR := override (arg_start_year a) (START_YEAR w),
                  END_YEAR := override (arg_end_year a) (END_YEAR w)\<rparr>
      in case build_spatial_index (\<not> arg_rebuild_index a) w0 of
           (Inl e, failed, w1) \<Rightarrow> (1, [1])
         | (Inr spatial_index, failed, w1) \<Rightarrow>
             (case extract_all_variables (arg_variables a) True True w1 of
                (Inl e, w2) \<Rightarrow> (1, [1, 2])
              | (Inr variable_data, w2) \<Rightarrow>
                  if variable_data = [] then (1, [1, 2])
                  else (let steps = (if arg_no_validation a then [1, 2] else [1, 2, 3]);
                            report = (if arg_no_validation a then None
                                      else validate_extraction variable_data)
                        in case report of
                             Some e \<Rightarrow> (1, steps)
                           | None \<Rightarrow>
                               (case prepare_for_gwas variable_data (arg_aggregation a)
                                       (arg_derived a) of
                                  Inl e \<Rightarrow> (1, steps @ [4])
                                | Inr final_df \<Rightarrow> (0, steps @ [4, 5])))))"

definition main ::
  "((string, cell long_table) dict \<Rightarrow> py_error option) \<Rightarrow> args \<Rightarrow> cell world
     \<Rightarrow> int \<times> nat list" where
  "main validate_extraction given w =
     (case parse_args given of
        None \<Rightarrow> (2, [])
      | Some a \<Rightarrow> pipeline validate_extraction a w)"

section \<open>Concrete inputs\<close>

text \<open>
  A small source (two latitudes, two longitudes, two months) and worlds around it, used
  to run the functions on concrete data.
\<close>

definition demo_ds :: "real dataset" where
  "demo_ds = \<lparr>ds_lat = [0, 1 / 24], ds_lon = [10, 10 + 1 / 24],
              ds_time = [(2000, 1), (2000, 2)],
              ds_values = (\<lambda>t r c. real (100 * t + 10 * r + c))\<rparr>"

definition demo_world :: "csv_row list \<Rightarrow> real world" where
  "demo_world df =
     \<lparr>accessions_file = Inr df,
      open_dataset = (\<lambda>v. if v \<in> set CLIMATE_VARIABLES then Inr demo_ds
                          else Inl (OSError ''no such file'')),
      cache_file = None, failures_log = [], START_YEAR = None, END_YEAR = None\<rparr>"

definition dup_rows :: "csv_row list" where
  "dup_rows = [\<lparr>CS_number = ''a'', latitude = Some 0, longitude = Some 10\<rparr>,
               \<lparr>CS_number = ''a'', latitude = Some 50, longitude = Some 50\<rparr>]"

definition four_rows :: "csv_row list" where
  "four_rows = [\<lparr>CS_number = ''a'', latitude = Some 0, longitude = Some 10\<rparr>,
                \<lparr>CS_number = ''b'', latitude = Some (1 / 100), longitude = None\<rparr>,
                \<lparr>CS_number = ''c'', latitude = Some 50, longitude = Some 50\<rparr>,
                \<lparr>CS_number = ''d'', latitude = Some (1 / 25), longitude = Some (1001 / 100)\<rparr>]"

definition four_catalog :: "accession list" where
  "four_catalog = [\<lparr>acc_id = ''a'', acc_lat = 0, acc_lon = 10\<rparr>,
                   \<lparr>acc_id = ''c'', acc_lat = 50, acc_lon = 50\<rparr>,
                   \<lparr>acc_id = ''d'', acc_lat = 1 / 25, acc_lon = 1001 / 100\<rparr>]"

definition twice_rows :: "csv_row list" where
  "twice_rows = [\<lparr>CS_number = ''a'', latitude = Some 0, longitude = Some 10\<rparr>,
                 \<lparr>CS_number = ''b'', latitude = None, longitude = Some 10\<rparr>,
                 \<lparr>CS_number = ''a'', latitude = Some (1 / 24), longitude = Some (10 + 1 / 24)\<rparr>]"

definition demo_index :: spatial_index where
  "demo_index = [(''a'', (0, 0)), (''b'', (1, 1))]"

definition demo_tables :: "(string, cell long_table) dict" where
  "demo_tables =
     [(''tmax'', [(''a'', 2000, 1, Some (Num 30)), (''a'', 2000, 2, Some (Num 31))]),
      (''tmin'', [(''a'', 2000, 1, Some (Num 10)), (''b'', 2000, 1, Some (Num 5))])]"

definition demo_frame :: frame where
  "demo_frame =
     \<lparr>value_columns = [''pet'', ''ppt'', ''aet'', ''tmax'', ''tmin''],
      rows = [\<lparr>row_key = (''a'', 2000, 1),
               vals = (\<lambda>c. None)(''pet'' := Some (Num 50), ''ppt'' := Some (Num 100),
                                 ''aet'' := Some (Num 40), ''tmax'' := Some (Num 30),
                                 ''tmin'' := Some (Num 10))\<rparr>]\<rparr>"

definition demo_merged :: frame where
  "demo_merged =
     merge_outer
       (frame_of_long ''tmax''
          [(''a'', 2000, 1, Some (Num 30)), (''a'', 2000, 2, Some (Num 31))])
       ''tmin'' [(''a'', 2000, 1, Some (Num 10)), (''b'', 2000, 1, Some (Num 5))]"

definition demo_cell_ds :: "cell dataset" where
  "demo_cell_ds = \<lparr>ds_lat = [0, 1 / 24], ds_lon = [10, 10 + 1 / 24],
                   ds_time = [(2000, 1), (2000, 2)],
                   ds_values = (\<lambda>t r c. Some (Num (real (100 * t + 10 * r + c))))\<rparr>"

definition demo_cell_world :: "cell world" where
  "demo_cell_world =
     \<lparr>accessions_file = Inr four_rows,
      open_dataset = (\<lambda>v. if v \<in> set CLIMATE_VARIABLES then Inr demo_cell_ds
                          else Inl (OSError ''no such file'')),
      cache_file = None, failures_log = [], START_YEAR = None, END_YEAR = None\<rparr>"

definition demo_args :: "string \<Rightarrow> args" where
  "demo_args mode =
     \<lparr>arg_variables = Some [''tmax'', ''tmin''], arg_aggregation = mode,
      arg_format = ''csv'', arg_no_validation = False, arg_rebuild_index = True,
      arg_derived = True, arg_start_year = None, arg_end_year = None\<rparr>"

definition overwritten_frame :: frame where
  "overwritten_frame =
     \<lparr>value_columns = [''ppt'', ''aet'', ''water_balance''],
      rows = [\<lparr>row_key = (''a'', 2000, 1),
               vals = (\<lambda>c. None)(''ppt'' := Some (Num 100), ''aet'' := Some (Num 40),
                                 ''water_balance'' := Some (Num 999))\<rparr>]\<rparr>"

definition dry_frame :: frame where
  "dry_frame =
     \<lparr>value_columns = [''pet'', ''ppt''],
      rows = [\<lparr>row_key = (''a'', 2000, 1),
               vals = (\<lambda>c. None)(''pet'' := Some (Num 50),
                                 ''ppt'' := Some (Num (- 1 / 10)))\<rparr>]\<rparr>"

section \<open>Properties of the spatial index\<close>

subsection \<open>Dictionaries\<close>

lemma map_of_dict_set: "map_of (dict_set d k v) = (map_of d)(k \<mapsto> v)"
  by (induction d) (auto simp: fun_eq_iff)

lemma keys_dict_set: "fst ` set (dict_set d k v) = insert k (fst ` set d)"
  by (induction d) force+

lemma distinct_dict_set: "distinct (map fst d) \<Longrightarrow> distinct (map fst (dict_set d k v))"
  by (induction d) (auto simp: keys_dict_set)

subsection \<open>Nearest grid cell\<close>

lemma argmin_less: "xs \<noteq> [] \<Longrightarrow> argmin xs < length xs"
  by (induction xs rule: argmin.induct) (auto simp: Let_def)

lemma argmin_le: "j < length xs \<Longrightarrow> xs ! argmin xs \<le> xs ! j"
proof (induction xs arbitrary: j rule: argmin.induct)
  case 1 then show ?case by simp
next
  case (2 x) then show ?case by simp
next
  case (3 x y ys)
  show ?case
  proof (cases j)
    case 0
    then show ?thesis by (auto simp: Let_def)
  next
    case (Suc k)
    with 3 have "(y # ys) ! argmin (y # ys) \<le> (y # ys) ! k" by simp
    with Suc show ?thesis by (auto simp: Let_def)
  qed
qed

lemma argmin_first: "j < argmin xs \<Longrightarrow> xs ! argmin xs < xs ! j"
proof (induction xs arbitrary: j rule: argmin.induct)
  case 1 then show ?case by simp
next
  case (2 x) then show ?case by simp
next
  case (3 x y ys)
  show ?case
  proof (cases j)
    case 0
    with 3 show ?thesis by (auto simp: Let_def split: if_splits)
  next
    case (Suc k)
    with 3 show ?thesis by (auto simp: Let_def split: if_splits)
  qed
qed

lemma set_matches: "set (matches grid x t) = {i. i < length grid \<and> \<bar>grid ! i - x\<bar> < t}"
  by (auto simp: matches_def)

lemma sorted_matches: "sorted_wrt (<) (matches grid x t)"
  unfolding matches_def by (rule sorted_wrt_filter) (simp add: sorted_wrt_upt)

lemma nearest_props:
  assumes ne: "matches grid x t \<noteq> []"
  shows "nearest grid x t < length grid"
    and "\<bar>grid ! nearest grid x t - x\<bar> < t"
    and "\<forall>i<length grid. \<bar>grid ! nearest grid x t - x\<bar> \<le> \<bar>grid ! i - x\<bar>"
    and "\<forall>i<nearest grid x t. \<bar>grid ! nearest grid x t - x\<bar> < \<bar>grid ! i - x\<bar>"
proof -
  let ?m = "matches grid x t"
  let ?f = "\<lambda>i. \<bar>grid ! i - x\<bar>"
  let ?a = "argmin (map ?f ?m)"
  have a: "?a < length ?m" using argmin_less[of "map ?f ?m"] ne by simp
  then have mem: "nearest grid x t \<in> set ?m" by (simp add: nearest_def)
  then show 1: "nearest grid x t < length grid" and 2: "\<bar>grid ! nearest grid x t - x\<bar> < t"
    by (simp_all add: set_matches)
  have val: "?f (nearest grid x t) = map ?f ?m ! ?a" using a by (simp add: nearest_def)
  show "\<forall>i<length grid. ?f (nearest grid x t) \<le> ?f i"
  proof (intro allI impI)
    fix i assume i: "i < length grid"
    show "?f (nearest grid x t) \<le> ?f i"
    proof (cases "?f i < t")
      case True
      with i have "i \<in> set ?m" by (simp add: set_matches)
      then obtain k where k: "k < length ?m" "?m ! k = i" by (auto simp: in_set_conv_nth)
      then have "map ?f ?m ! ?a \<le> map ?f ?m ! k" using argmin_le[of k "map ?f ?m"] by simp
      with k val show ?thesis by simp
    next
      case False
      with 2 show ?thesis by linarith
    qed
  qed
  show "\<forall>i<nearest grid x t. ?f (nearest grid x t) < ?f i"
  proof (intro allI impI)
    fix i assume i: "i < nearest grid x t"
    show "?f (nearest grid x t) < ?f i"
    proof (cases "?f i < t")
      case True
      with i 1 have "i \<in> set ?m" by (simp add: set_matches)
      then obtain k where k: "k < length ?m" "?m ! k = i" by (auto simp: in_set_conv_nth)
      have "k < ?a"
      proof (rule ccontr)
        assume "\<not> k < ?a"
        then have "?a \<le> k" by simp
        moreover have "?a \<noteq> k" using i k by (auto simp: nearest_def)
        ultimately have "?a < k" by simp
        then have "?m ! ?a < ?m ! k" using sorted_matches[of grid x t] k(1)
          by (auto simp: sorted_wrt_iff_nth_less)
        with i k show False by (simp add: nearest_def)
      qed
      then have "map ?f ?m ! ?a < map ?f ?m ! k" using argmin_first[of k "map ?f ?m"] by simp
      with k val show ?thesis by simp
    next
      case False
      with 2 show ?thesis by linarith
    qed
  qed
qed

lemma argmin_single: "length xs = 1 \<Longrightarrow> argmin xs = 0"
  by (cases xs) auto

lemma find_nearest_grid_cell_eq:
  "find_nearest_grid_cell lat lon grid_lats grid_lons t =
     (if matches grid_lats lat t = [] \<or> matches grid_lons lon t = [] then None
      else Some (nearest grid_lats lat t, nearest grid_lons lon t))"
proof -
  have s: "\<And>g x. matches g x t \<noteq> [] \<Longrightarrow> \<not> 1 < length (matches g x t) \<Longrightarrow>
      matches g x t ! 0 = nearest g x t"
  proof -
    fix g x assume "matches g x t \<noteq> []" "\<not> 1 < length (matches g x t)"
    then have "length (matches g x t) = 1" by (cases "matches g x t") auto
    then show "matches g x t ! 0 = nearest g x t"
      by (simp add: nearest_def argmin_single)
  qed
  show ?thesis
    by (auto simp: find_nearest_grid_cell_def Let_def s nearest_def[symmetric])
qed

text \<open>
  Claim C2. When some grid latitude and some grid longitude lie within the tolerance of
  the point, \<open>find_nearest_grid_cell\<close> returns a cell whose latitude and longitude
  are both within the tolerance; the row minimises the absolute latitude difference over
  the whole latitude axis and the column minimises the absolute longitude difference over
  the whole longitude axis, each on its own; among equally near positions the lowest is
  taken (every lower position is strictly farther).
\<close>

theorem find_nearest_grid_cell_nearest:
  assumes "\<exists>i<length grid_lats. \<bar>grid_lats ! i - lat\<bar> < tolerance"
      and "\<exists>j<length grid_lons. \<bar>grid_lons ! j - lon\<bar> < tolerance"
  shows "\<exists>row col.
      find_nearest_grid_cell lat lon grid_lats grid_lons tolerance = Some (row, col)
    \<and> row < length grid_lats \<and> col < length grid_lons
    \<and> \<bar>grid_lats ! row - lat\<bar> < tolerance \<and> \<bar>grid_lons ! col - lon\<bar> < tolerance
    \<and> (\<forall>i<length grid_lats. \<bar>grid_lats ! row - lat\<bar> \<le> \<bar>grid_lats ! i - lat\<bar>)
    \<and> (\<forall>j<length grid_lons. \<bar>grid_lons ! col - lon\<bar> \<le> \<bar>grid_lons ! j - lon\<bar>)
    \<and> (\<forall>i<row. \<bar>grid_lats ! row - lat\<bar> < \<bar>grid_lats ! i - lat\<bar>)
    \<and> (\<forall>j<col. \<bar>grid_lons ! col - lon\<bar> < \<bar>grid_lons ! j - lon\<bar>)"
proof -
  from assms have ne: "matches grid_lats lat tolerance \<noteq> []" "matches grid_lons lon tolerance \<noteq> []"
    using set_matches[of grid_lats lat tolerance] set_matches[of grid_lons lon tolerance]
    by (metis (mono_tags, lifting) empty_iff empty_set mem_Collect_eq)+
  show ?thesis
    using nearest_props[OF ne(1)] nearest_props[OF ne(2)] ne
    by (simp add: find_nearest_grid_cell_eq)
qed

theorem find_nearest_grid_cell_nearest_witness:
  "(\<exists>i<length [0, 1 / 48 :: real]. \<bar>[0, 1 / 48] ! i - 1 / 96\<bar> < (1 / 48 :: real)) \<and>
   (\<exists>j<length [1 / 5, 1 / 4 :: real]. \<bar>[1 / 5, 1 / 4] ! j - 21 / 100\<bar> < (1 / 48 :: real)) \<and>
   (\<exists>row col.
      find_nearest_grid_cell (1 / 96) (21 / 100) [0, 1 / 48] [1 / 5, 1 / 4] (1 / 48)
        = Some (row, col) \<and>
      \<bar>[0, 1 / 48] ! row - 1 / 96\<bar> < (1 / 48 :: real) \<and>
      \<bar>[1 / 5, 1 / 4] ! col - 21 / 100\<bar> < (1 / 48 :: real) \<and>
      (\<forall>i<row. \<bar>[0, 1 / 48] ! row - 1 / 96\<bar> < \<bar>[0, 1 / 48 :: real] ! i - 1 / 96\<bar>))"
proof -
  have h1: "\<exists>i<length [0, 1 / 48 :: real]. \<bar>[0, 1 / 48] ! i - 1 / 96\<bar> < (1 / 48 :: real)"
    by (rule exI[of _ 0]) simp
  have h2: "\<exists>j<length [1 / 5, 1 / 4 :: real]. \<bar>[1 / 5, 1 / 4] ! j - 21 / 100\<bar> < (1 / 48 :: real)"
    by (rule exI[of _ 0]) simp
  from find_nearest_grid_cell_nearest[OF h1 h2] h1 h2 show ?thesis by blast
qed

text \<open>The tie of the witness (both latitudes are 1/96 away) goes to the lower row.\<close>

lemma find_nearest_grid_cell_tie:
  "find_nearest_grid_cell (1 / 96) (21 / 100) [0, 1 / 48] [1 / 5, 1 / 4] (1 / 48) = Some (0, 0)"
  by (simp add: find_nearest_grid_cell_def matches_def Let_def)

subsection \<open>The indexing loop\<close>

lemma index_step_simps:
  "cell_of gla glo row = Some c \<Longrightarrow> index_step gla glo st row = (dict_set (fst st) (acc_id row) c, snd st)"
  "cell_of gla glo row = None \<Longrightarrow> index_step gla glo st row = (fst st, snd st @ [acc_id row])"
  by (simp_all add: index_step_def cell_of_def)

lemma foldl_index_failed:
  "snd (foldl (index_step gla glo) st accs) =
     snd st @ map acc_id (filter (\<lambda>r. cell_of gla glo r = None) accs)"
proof (induction accs arbitrary: st)
  case Nil then show ?case by simp
next
  case (Cons r accs)
  show ?case by (cases "cell_of gla glo r") (simp_all add: Cons index_step_simps)
qed

lemma foldl_index_distinct:
  "distinct (map fst (fst st)) \<Longrightarrow> distinct (map fst (fst (foldl (index_step gla glo) st accs)))"
proof (induction accs arbitrary: st)
  case Nil then show ?case by simp
next
  case (Cons r accs)
  show ?case
    by (cases "cell_of gla glo r") (simp_all add: Cons index_step_simps distinct_dict_set)
qed

lemma foldl_index_absent:
  "\<forall>r\<in>set accs. acc_id r \<noteq> k \<Longrightarrow>
     map_of (fst (foldl (index_step gla glo) st accs)) k = map_of (fst st) k"
proof (induction accs arbitrary: st)
  case Nil then show ?case by simp
next
  case (Cons r accs)
  then show ?case
    by (cases "cell_of gla glo r") (auto simp add: index_step_simps map_of_dict_set)
qed

lemma foldl_index_last:
  assumes "\<forall>r\<in>set post. acc_id r \<noteq> acc_id row" and "cell_of gla glo row = Some c"
  shows "map_of (fst (foldl (index_step gla glo) st (pre @ row # post))) (acc_id row) = Some c"
  using assms by (simp add: foldl_index_absent index_step_simps map_of_dict_set)

lemma foldl_index_none:
  assumes "\<forall>r\<in>set accs. acc_id r = k \<longrightarrow> cell_of gla glo r = None"
  shows "map_of (fst (foldl (index_step gla glo) st accs)) k = map_of (fst st) k"
  using assms
proof (induction accs arbitrary: st)
  case Nil then show ?case by simp
next
  case (Cons r accs)
  then show ?case
    by (cases "cell_of gla glo r") (auto simp add: index_step_simps map_of_dict_set)
qed

lemma index_accessions_distinct_ids:
  assumes d: "distinct (map acc_id accs)" and r: "row \<in> set accs"
  shows "map_of (fst (index_accessions accs gla glo)) (acc_id row) = cell_of gla glo row"
    and "acc_id row \<in> set (snd (index_accessions accs gla glo)) \<longleftrightarrow> cell_of gla glo row = None"
proof -
  from r obtain pre post where sp: "accs = pre @ row # post" by (auto simp: in_set_conv_decomp)
  with d have post: "\<forall>r\<in>set post. acc_id r \<noteq> acc_id row" and pre: "\<forall>r\<in>set pre. acc_id r \<noteq> acc_id row"
    by (auto simp: image_iff)
  show "map_of (fst (index_accessions accs gla glo)) (acc_id row) = cell_of gla glo row"
  proof (cases "cell_of gla glo row")
    case None
    have "\<forall>r\<in>set accs. acc_id r = acc_id row \<longrightarrow> cell_of gla glo r = None"
      using sp pre post None by auto
    then show ?thesis using None by (simp add: index_accessions_def foldl_index_none)
  next
    case (Some c)
    show ?thesis unfolding index_accessions_def sp Some
      by (rule foldl_index_last[OF post Some])
  qed
  show "acc_id row \<in> set (snd (index_accessions accs gla glo)) \<longleftrightarrow> cell_of gla glo row = None"
  proof -
    have "snd (index_accessions accs gla glo) = map acc_id (filter (\<lambda>r. cell_of gla glo r = None) accs)"
      unfolding index_accessions_def by (simp only: foldl_index_failed snd_conv append_Nil)
    then show ?thesis using sp pre post by (auto simp: image_iff)
  qed
qed

lemma cell_of_Some_iff:
  "cell_of gla glo row \<noteq> None \<longleftrightarrow>
     (\<exists>i<length gla. \<bar>gla ! i - acc_lat row\<bar> < SPATIAL_TOLERANCE) \<and>
     (\<exists>j<length glo. \<bar>glo ! j - acc_lon row\<bar> < SPATIAL_TOLERANCE)"
proof -
  have "\<And>g x. matches g x SPATIAL_TOLERANCE \<noteq> [] \<longleftrightarrow> (\<exists>i<length g. \<bar>g ! i - x\<bar> < SPATIAL_TOLERANCE)"
    by (auto simp: matches_def filter_empty_conv)
  then show ?thesis by (auto simp add: cell_of_def find_nearest_grid_cell_eq)
qed

lemma build_fresh:
  assumes "load_accessions w = Inr catalog"
      and "open_dataset w (CLIMATE_VARIABLES ! 0) = Inr ds"
      and "use_cache \<longrightarrow> cache_file w = None"
  shows "build_spatial_index use_cache w =
           (Inr (fst (index_accessions catalog (ds_lat ds) (ds_lon ds))),
            snd (index_accessions catalog (ds_lat ds) (ds_lon ds)),
            if use_cache
            then w\<lparr>cache_file := Some (fst (index_accessions catalog (ds_lat ds) (ds_lon ds)))\<rparr>
            else w)"
  using assms
  by (auto simp: build_spatial_index_def get_grid_coordinates_def split: prod.splits)

lemmas index_eval = build_spatial_index_def load_accessions_def List.map_filter_def
  index_accessions_def index_step_def find_nearest_grid_cell_def matches_def
  SPATIAL_TOLERANCE_def CLIMATE_VARIABLES_def get_grid_coordinates_def
  demo_world_def demo_ds_def Let_def

text \<open>
  Claim C3, as amended. For a catalogue whose ids are pairwise distinct, when the cache is
  not used (or absent), the accession file loads and the sample source opens,
  \<open>build_spatial_index\<close> completes, and for every point of the loaded catalogue: its
  id is mapped to a cell exactly when both axes have a grid value within the tolerance,
  and its id is in the list of failures exactly when it is not mapped. So exactly one of
  the two holds, and a point that fails does not stop the loop.
\<close>

theorem build_spatial_index_partition:
  assumes "load_accessions w = Inr catalog"
      and "open_dataset w (CLIMATE_VARIABLES ! 0) = Inr ds"
      and "use_cache \<longrightarrow> cache_file w = None"
      and "distinct (map acc_id catalog)"
  shows "\<exists>idx failed w'. build_spatial_index use_cache w = (Inr idx, failed, w') \<and>
     (\<forall>p\<in>set catalog.
        ((map_of idx (acc_id p) \<noteq> None) \<longleftrightarrow>
           (\<exists>i<length (ds_lat ds). \<bar>ds_lat ds ! i - acc_lat p\<bar> < SPATIAL_TOLERANCE) \<and>
           (\<exists>j<length (ds_lon ds). \<bar>ds_lon ds ! j - acc_lon p\<bar> < SPATIAL_TOLERANCE)) \<and>
        ((acc_id p \<in> set failed) \<longleftrightarrow> (map_of idx (acc_id p) = None)))"
proof -
  let ?r = "index_accessions catalog (ds_lat ds) (ds_lon ds)"
  have "\<forall>p\<in>set catalog.
        ((map_of (fst ?r) (acc_id p) \<noteq> None) \<longleftrightarrow>
           (\<exists>i<length (ds_lat ds). \<bar>ds_lat ds ! i - acc_lat p\<bar> < SPATIAL_TOLERANCE) \<and>
           (\<exists>j<length (ds_lon ds). \<bar>ds_lon ds ! j - acc_lon p\<bar> < SPATIAL_TOLERANCE)) \<and>
        ((acc_id p \<in> set (snd ?r)) \<longleftrightarrow> (map_of (fst ?r) (acc_id p) = None))"
    using index_accessions_distinct_ids[OF assms(4)] cell_of_Some_iff by simp
  then show ?thesis unfolding build_fresh[OF assms(1-3)] by blast
qed

theorem build_spatial_index_partition_witness:
  "load_accessions (demo_world four_rows) = Inr four_catalog \<and>
   open_dataset (demo_world four_rows) (CLIMATE_VARIABLES ! 0) = Inr demo_ds \<and>
   distinct (map acc_id four_catalog) \<and>
   (\<exists>idx failed w'.
      build_spatial_index False (demo_world four_rows) = (Inr idx, failed, w') \<and>
      (\<forall>p\<in>set four_catalog. (acc_id p \<in> set failed) \<longleftrightarrow> (map_of idx (acc_id p) = None)))"
proof -
  have h1: "load_accessions (demo_world four_rows) = Inr four_catalog"
    by (simp add: index_eval four_rows_def four_catalog_def)
  have h2: "open_dataset (demo_world four_rows) (CLIMATE_VARIABLES ! 0) = Inr demo_ds"
    by (simp add: demo_world_def CLIMATE_VARIABLES_def)
  have h3: "False \<longrightarrow> cache_file (demo_world four_rows) = None" by simp
  have h4: "distinct (map acc_id four_catalog)" by (simp add: four_catalog_def)
  from build_spatial_index_partition[OF h1 h2 h3 h4] h1 h2 h4 show ?thesis by blast
qed

text \<open>
  The claim as it stands fails when two rows share an id: the first row of
  \<open>dup_rows\<close> is on the grid, the second is far from it, and the id ends up both in
  the index and in the list of failures.
\<close>

theorem build_spatial_index_partition_counterexample:
  "fst (build_spatial_index False (demo_world dup_rows)) = Inr [(''a'', (0, 0))] \<and>
   fst (snd (build_spatial_index False (demo_world dup_rows))) = [''a'']"
  by (simp add: index_eval dup_rows_def)

text \<open>
  Claim C10. The dictionary built by \<open>build_spatial_index\<close> has each id once. Of the
  rows of the loaded catalogue that share an id, the last one decides: when a cell is
  computed for it, that cell is the entry of the id, whatever the earlier rows gave.
  \<open>load_accessions\<close> keeps every row that has both coordinates, in order, so rows
  with equal ids all reach the loop.
\<close>

theorem build_spatial_index_last_row_wins:
  assumes "accessions_file w = Inr df"
      and "open_dataset w (CLIMATE_VARIABLES ! 0) = Inr ds"
      and "use_cache \<longrightarrow> cache_file w = None"
  shows "\<exists>catalog idx failed w'.
      load_accessions w = Inr catalog
    \<and> map acc_id catalog =
        map CS_number (filter (\<lambda>r. latitude r \<noteq> None \<and> longitude r \<noteq> None) df)
    \<and> build_spatial_index use_cache w = (Inr idx, failed, w')
    \<and> distinct (map fst idx)
    \<and> (\<forall>pre row post c.
          catalog = pre @ row # post \<and> (\<forall>r\<in>set post. acc_id r \<noteq> acc_id row) \<and>
          find_nearest_grid_cell (acc_lat row) (acc_lon row) (ds_lat ds) (ds_lon ds)
            SPATIAL_TOLERANCE = Some c
          \<longrightarrow> map_of idx (acc_id row) = Some c)"
proof -
  let ?cat = "List.map_filter keep_row df"
  have l: "load_accessions w = Inr ?cat" using assms(1) by (simp add: load_accessions_def)
  have ids: "map acc_id ?cat =
        map CS_number (filter (\<lambda>r. latitude r \<noteq> None \<and> longitude r \<noteq> None) df)"
    by (induction df) (auto simp: List.map_filter_def split: option.splits)
  let ?r = "index_accessions ?cat (ds_lat ds) (ds_lon ds)"
  have d: "distinct (map fst (fst ?r))"
    unfolding index_accessions_def by (rule foldl_index_distinct) simp
  have last: "\<forall>pre row post c.
          ?cat = pre @ row # post \<and> (\<forall>r\<in>set post. acc_id r \<noteq> acc_id row) \<and>
          find_nearest_grid_cell (acc_lat row) (acc_lon row) (ds_lat ds) (ds_lon ds)
            SPATIAL_TOLERANCE = Some c
          \<longrightarrow> map_of (fst ?r) (acc_id row) = Some c"
  proof (intro allI impI, elim conjE)
    fix pre row post c
    assume sp: "?cat = pre @ row # post" and post: "\<forall>r\<in>set post. acc_id r \<noteq> acc_id row"
      and c: "find_nearest_grid_cell (acc_lat row) (acc_lon row) (ds_lat ds) (ds_lon ds)
            SPATIAL_TOLERANCE = Some c"
    from c have c': "cell_of (ds_lat ds) (ds_lon ds) row = Some c" by (simp add: cell_of_def)
    show "map_of (fst ?r) (acc_id row) = Some c"
      unfolding index_accessions_def sp by (rule foldl_index_last[OF post c'])
  qed
  show ?thesis unfolding build_fresh[OF l assms(2,3)] using l ids d last by blast
qed

theorem build_spatial_index_last_row_wins_witness:
  "accessions_file (demo_world twice_rows) = Inr twice_rows \<and>
   open_dataset (demo_world twice_rows) (CLIMATE_VARIABLES ! 0) = Inr demo_ds \<and>
   (\<exists>catalog idx failed w'.
      load_accessions (demo_world twice_rows) = Inr catalog \<and>
      map acc_id catalog = [''a'', ''a''] \<and>
      build_spatial_index False (demo_world twice_rows) = (Inr idx, failed, w') \<and>
      distinct (map fst idx))"
proof -
  have h1: "accessions_file (demo_world twice_rows) = Inr twice_rows"
    by (simp add: demo_world_def)
  have h2: "open_dataset (demo_world twice_rows) (CLIMATE_VARIABLES ! 0) = Inr demo_ds"
    by (simp add: demo_world_def CLIMATE_VARIABLES_def)
  have h3: "False \<longrightarrow> cache_file (demo_world twice_rows) = None" by simp
  have f: "map CS_number (filter (\<lambda>r. latitude r \<noteq> None \<and> longitude r \<noteq> None) twice_rows)
             = [''a'', ''a'']"
    by (simp add: twice_rows_def del: not_None_eq)
  from build_spatial_index_last_row_wins[OF h1 h2 h3]
  obtain catalog idx failed w' where
        "load_accessions (demo_world twice_rows) = Inr catalog"
    and "map acc_id catalog =
        map CS_number (filter (\<lambda>r. latitude r \<noteq> None \<and> longitude r \<noteq> None) twice_rows)"
    and "build_spatial_index False (demo_world twice_rows) = (Inr idx, failed, w')"
    and "distinct (map fst idx)"
    by (elim exE conjE)
  with f h1 h2 show ?thesis by (intro conjI exI) simp_all
qed

text \<open>On \<open>twice_rows\<close> the entry of the id is the cell of its second row.\<close>

lemma build_spatial_index_twice_rows:
  "fst (build_spatial_index False (demo_world twice_rows)) = Inr [(''a'', (1, 1))]"
  by (simp add: index_eval twice_rows_def)

text \<open>
  Claim C5. A call with the cache enabled leaves the returned index in the cache, and
  any later call with the cache enabled that finds this cache returns the same index
  (and builds nothing). A call with the cache disabled does not read the cache. A call
  changes the cache only by storing the index it has just built, and only when the cache
  is enabled and was absent; a failed build stores nothing.
\<close>

theorem spatial_index_cache_round_trip:
  "(build_spatial_index True w = (Inr idx, failed, w') \<longrightarrow>
      cache_file w' = Some idx \<and>
      (\<forall>w2. cache_file w2 = cache_file w' \<longrightarrow> build_spatial_index True w2 = (Inr idx, [], w2)))
   \<and> fst (build_spatial_index False (w\<lparr>cache_file := x\<rparr>)) = fst (build_spatial_index False w)
   \<and> (snd (snd (build_spatial_index use_cache w)) = w \<or>
       use_cache \<and> cache_file w = None \<and>
       (\<exists>built. fst (build_spatial_index use_cache w) = Inr built \<and>
           snd (snd (build_spatial_index use_cache w)) = w\<lparr>cache_file := Some built\<rparr>))"
proof (intro conjI impI)
  assume b: "build_spatial_index True w = (Inr idx, failed, w')"
  then show "cache_file w' = Some idx"
    by (auto simp: build_spatial_index_def Let_def split: option.splits sum.splits prod.splits)
  then show "\<forall>w2. cache_file w2 = cache_file w' \<longrightarrow> build_spatial_index True w2 = (Inr idx, [], w2)"
    by (simp add: build_spatial_index_def)
next
  show "fst (build_spatial_index False (w\<lparr>cache_file := x\<rparr>)) = fst (build_spatial_index False w)"
    by (simp add: build_spatial_index_def load_accessions_def Let_def
             split: option.splits sum.splits prod.splits)
next
  show "snd (snd (build_spatial_index use_cache w)) = w \<or>
       use_cache \<and> cache_file w = None \<and>
       (\<exists>built. fst (build_spatial_index use_cache w) = Inr built \<and>
           snd (snd (build_spatial_index use_cache w)) = w\<lparr>cache_file := Some built\<rparr>)"
    by (auto simp: build_spatial_index_def Let_def split: option.splits sum.splits prod.splits)
qed

theorem spatial_index_cache_round_trip_witness:
  "build_spatial_index True (demo_world four_rows) =
     (Inr [(''a'', (0, 0)), (''d'', (1, 0))], [''c''],
      (demo_world four_rows)\<lparr>cache_file := Some [(''a'', (0, 0)), (''d'', (1, 0))]\<rparr>) \<and>
   build_spatial_index True
      ((demo_world four_rows)\<lparr>cache_file := Some [(''a'', (0, 0)), (''d'', (1, 0))]\<rparr>) =
     (Inr [(''a'', (0, 0)), (''d'', (1, 0))], [],
      (demo_world four_rows)\<lparr>cache_file := Some [(''a'', (0, 0)), (''d'', (1, 0))]\<rparr>)"
proof -
  let ?w = "demo_world four_rows"
  let ?i = "[(''a'', (0, 0)), (''d'', (1, 0))] :: spatial_index"
  let ?w' = "?w\<lparr>cache_file := Some ?i\<rparr>"
  have p: "build_spatial_index True ?w = (Inr ?i, [''c''], ?w')"
    by (simp add: index_eval four_rows_def)
  note q = spatial_index_cache_round_trip[where w = ?w and idx = ?i and failed = "[''c'']"
      and w' = ?w', THEN conjunct1, THEN mp, OF p]
  from q[THEN conjunct2, rule_format, of ?w']
  have "build_spatial_index True ?w' = (Inr ?i, [], ?w')" by simp
  with p show ?thesis by (intro conjI)
qed

section \<open>Properties of the extraction\<close>

subsection \<open>One failing variable\<close>

lemma extract_step_fail:
  "extract_one s idx w var = Inl e \<Longrightarrow>
     extract_step s idx w st var = (fst st, snd st @ [var @ '': '' @ str_of e])"
  by (simp add: extract_step_def LOG_EXTRACTION_FAILURES_def)

lemma extract_step_ok:
  "extract_one s idx w var = Inr df \<Longrightarrow>
     extract_step s idx w st var = (dict_set (fst st) var df, snd st)"
  by (simp add: extract_step_def)





lemma foldl_extract_distinct:
  "distinct (map fst (fst st)) \<Longrightarrow>
     distinct (map fst (fst (foldl (extract_step s idx w) st vars)))"
proof (induction vars arbitrary: st)
  case Nil then show ?case by simp
next
  case (Cons v vars)
  then show ?case
    by (cases "extract_one s idx w v")
       (simp_all add: extract_step_fail extract_step_ok distinct_dict_set)
qed



lemmas extract_eval = extract_variable_sequential_def extract_timeseries_for_accession_def
  isel_def get_time_coordinates_def vectorized_arrays_def isel_points_def np_repeat_def
  np_tile_def extract_vectorized_all_locations_def rows_of_arrays_def extract_one_def
  demo_world_def demo_ds_def demo_index_def CLIMATE_VARIABLES_def Let_def


text \<open>The dictionary of that run: the two variables that open, each with its table.\<close>

lemma extract_all_variables_demo:
  "fst (extract_all_variables (Some [''tmax'', ''bogus'', ''ppt'']) False True
          (demo_world four_rows)) =
     Inr [(''tmax'', [(''a'', 2000, 1, 0), (''a'', 2000, 2, 100),
                      (''d'', 2000, 1, 10), (''d'', 2000, 2, 110)]),
          (''ppt'', [(''a'', 2000, 1, 0), (''a'', 2000, 2, 100),
                     (''d'', 2000, 1, 10), (''d'', 2000, 2, 110)])]"
  by (simp add: extract_all_variables_def extract_step_def index_eval extract_eval four_rows_def)

subsection \<open>The two extraction strategies\<close>

text \<open>
  The per-point strategy returns, for every entry of the index in turn, the series of its
  cell along the time axis.
\<close>

lemma extract_each_rows:
  assumes "\<forall>(k, r, c)\<in>set idx. r < length (ds_lat ds) \<and> c < length (ds_lon ds)"
  shows "extract_each ds idx time_index =
     Inr (map (\<lambda>(k, r, c). map (\<lambda>((year, month), v). (k, year, month, v))
               (zip time_index (map (\<lambda>t. ds_values ds t r c) [0..<length (ds_time ds)]))) idx)"
  using assms
  by (induction idx) (auto simp: extract_timeseries_for_accession_def isel_def)

text \<open>With a start or an end year, an extraction whose source opens raises.\<close>

lemma extract_variable_sequential_year_filter:
  assumes "open_dataset w variable = Inr ds" and "start_year \<noteq> None \<or> end_year \<noteq> None"
  shows "extract_variable_sequential variable spatial_index start_year end_year w =
     Inl (ValueError
       ''cannot use a dict-like object for selection on a dimension that does not have a MultiIndex'')"
  using assms by (auto simp: extract_variable_sequential_def Let_def)

text \<open>
  Claim C1 fails in the code. On a source with two months and an index of two
  accessions, \<open>extract_variable_sequential\<close> returns the four rows of the two series,
  while \<open>extract_vectorized_all_locations\<close> returns no table at all: it raises at
  \<open>time_array.year\<close>. The three arrays it has assembled by then do not line up either:
  the values are laid out time by time (0, 11, 100, 111), the ids and time stamps
  accession by accession, so put side by side they would give accession \<open>a\<close> in
  February the January value of accession \<open>b\<close>.
\<close>

theorem extraction_strategies_disagree:
  "extract_variable_sequential ''tmax'' demo_index None None (demo_world []) =
     Inr [(''a'', 2000, 1, 0), (''a'', 2000, 2, 100),
          (''b'', 2000, 1, 11), (''b'', 2000, 2, 111)] \<and>
   extract_vectorized_all_locations ''tmax'' demo_index (demo_world []) =
     Inl (AttributeError ''numpy.ndarray object has no attribute year'') \<and>
   vectorized_arrays ''tmax'' demo_index (demo_world []) =
     Inr ([''a'', ''a'', ''b'', ''b''],
          [(2000, 1), (2000, 2), (2000, 1), (2000, 2)],
          [0, 11, 100, 111]) \<and>
   rows_of_arrays ([''a'', ''a'', ''b'', ''b''],
                   [(2000, 1), (2000, 2), (2000, 1), (2000, 2)],
                   [0, 11, 100, 111 :: real]) =
     [(''a'', 2000, 1, 0), (''a'', 2000, 2, 11), (''b'', 2000, 1, 100), (''b'', 2000, 2, 111)]"
  by (simp add: extract_eval)

text \<open>So on this input the two strategies do not return the same thing.\<close>

theorem extraction_strategies_disagree_witness:
  "extract_vectorized_all_locations ''tmax'' demo_index (demo_world []) \<noteq>
   extract_variable_sequential ''tmax'' demo_index None None (demo_world [])"
  using extraction_strategies_disagree by simp

section \<open>Properties of the transformation\<close>

subsection \<open>The outer join\<close>

lemma left_rows_iff:
  "r' \<in> set (left_rows var R l) \<longleftrightarrow>
        (\<exists>x\<in>set R. key_of x = row_key l \<and> r' = l\<lparr>vals := (vals l)(var := value_of x)\<rparr>) \<or>
        ((\<forall>x\<in>set R. key_of x \<noteq> row_key l) \<and> r' = l\<lparr>vals := (vals l)(var := None)\<rparr>)"
proof (cases "filter (\<lambda>r. key_of r = row_key l) R")
  case Nil
  then have no: "\<forall>x\<in>set R. key_of x \<noteq> row_key l" by (simp add: filter_empty_conv)
  have "set (left_rows var R l) = {l\<lparr>vals := (vals l)(var := None)\<rparr>}"
    by (simp add: left_rows_def Nil)
  with no show ?thesis by simp
next
  case (Cons m ms)
  have "m \<in> set (filter (\<lambda>r. key_of r = row_key l) R)" by (simp add: Cons)
  then have ex: "\<exists>x\<in>set R. key_of x = row_key l" by auto
  have "set (left_rows var R l) =
      (\<lambda>r. l\<lparr>vals := (vals l)(var := value_of r)\<rparr>) ` set (filter (\<lambda>r. key_of r = row_key l) R)"
    unfolding left_rows_def Cons by simp
  then have "r' \<in> set (left_rows var R l) \<longleftrightarrow>
      (\<exists>x\<in>set R. key_of x = row_key l \<and> r' = l\<lparr>vals := (vals l)(var := value_of x)\<rparr>)"
    by auto
  with ex show ?thesis by blast
qed

lemma merge_outer_rows_eq:
  "rows (merge_outer L var R) =
     concat (map (left_rows var R) (rows L)) @
     map (\<lambda>r. \<lparr>row_key = key_of r, vals = (\<lambda>c. None)(var := value_of r)\<rparr>)
            (filter (\<lambda>r. key_of r \<notin> row_key ` set (rows L)) R)"
  by (simp add: merge_outer_def)

lemma merge_outer_rows:
  "r' \<in> set (rows (merge_outer L var R)) \<longleftrightarrow>
     (\<exists>l\<in>set (rows L).
        (\<exists>x\<in>set R. key_of x = row_key l \<and> r' = l\<lparr>vals := (vals l)(var := value_of x)\<rparr>) \<or>
        ((\<forall>x\<in>set R. key_of x \<noteq> row_key l) \<and> r' = l\<lparr>vals := (vals l)(var := None)\<rparr>)) \<or>
     (\<exists>x\<in>set R. key_of x \<notin> row_key ` set (rows L) \<and>
        r' = \<lparr>row_key = key_of x, vals = (\<lambda>c. None)(var := value_of x)\<rparr>)"
proof -
  have a: "r' \<in> set (concat (map (left_rows var R) (rows L))) \<longleftrightarrow>
      (\<exists>l\<in>set (rows L). r' \<in> set (left_rows var R l))" by auto
  have b: "r' \<in> set (map (\<lambda>r. \<lparr>row_key = key_of r, vals = (\<lambda>c. None)(var := value_of r)\<rparr>)
            (filter (\<lambda>r. key_of r \<notin> row_key ` set (rows L)) R)) \<longleftrightarrow>
      (\<exists>x\<in>set R. key_of x \<notin> row_key ` set (rows L) \<and>
        r' = \<lparr>row_key = key_of x, vals = (\<lambda>c. None)(var := value_of x)\<rparr>)" by auto
  show ?thesis
    unfolding merge_outer_rows_eq set_append Un_iff a b left_rows_iff ..
qed

lemma merge_outer_keys:
  "row_key ` set (rows (merge_outer L var R)) = row_key ` set (rows L) \<union> key_of ` set R"
proof (intro set_eqI iffI)
  fix k assume "k \<in> row_key ` set (rows (merge_outer L var R))"
  then obtain r' where "r' \<in> set (rows (merge_outer L var R))" "k = row_key r'" by auto
  then show "k \<in> row_key ` set (rows L) \<union> key_of ` set R"
    unfolding merge_outer_rows by auto
next
  fix k assume k: "k \<in> row_key ` set (rows L) \<union> key_of ` set R"
  show "k \<in> row_key ` set (rows (merge_outer L var R))"
  proof (cases "k \<in> row_key ` set (rows L)")
    case True
    then obtain l where l: "l \<in> set (rows L)" "k = row_key l" by auto
    show ?thesis
    proof (cases "\<exists>x\<in>set R. key_of x = row_key l")
      case True
      then obtain x where "x \<in> set R" "key_of x = row_key l" by auto
      with l have "l\<lparr>vals := (vals l)(var := value_of x)\<rparr> \<in> set (rows (merge_outer L var R))"
        unfolding merge_outer_rows by blast
      then have "row_key (l\<lparr>vals := (vals l)(var := value_of x)\<rparr>) \<in> row_key ` set (rows (merge_outer L var R))"
        by (rule imageI)
      with l show ?thesis by simp
    next
      case False
      with l have "l\<lparr>vals := (vals l)(var := None)\<rparr> \<in> set (rows (merge_outer L var R))"
        unfolding merge_outer_rows by blast
      then have "row_key (l\<lparr>vals := (vals l)(var := None)\<rparr>) \<in> row_key ` set (rows (merge_outer L var R))"
        by (rule imageI)
      with l show ?thesis by simp
    qed
  next
    case False
    with k obtain x where x: "x \<in> set R" "k = key_of x" by auto
    with False have "\<lparr>row_key = key_of x, vals = (\<lambda>c. None)(var := value_of x)\<rparr>
        \<in> set (rows (merge_outer L var R))"
      unfolding merge_outer_rows by blast
    then have "row_key \<lparr>row_key = key_of x, vals = (\<lambda>c. None)(var := value_of x)\<rparr>
        \<in> row_key ` set (rows (merge_outer L var R))"
      by (rule imageI)
    with x show ?thesis by simp
  qed
qed

lemma merged_ok_first: "merged_ok [(var, t)] (frame_of_long var t)"
  by (auto simp: merged_ok_def frame_of_long_def image_iff)

lemma merged_ok_step:
  assumes ok: "merged_ok vd df" and new: "var \<notin> fst ` set vd"
  shows "merged_ok (vd @ [(var, t)]) (merge_outer df var t)"
  unfolding merged_ok_def
proof (intro conjI ballI)
  show "value_columns (merge_outer df var t) = map fst (vd @ [(var, t)])"
    using ok by (simp add: merged_ok_def merge_outer_def)
  show "row_key ` set (rows (merge_outer df var t)) = (\<Union>p\<in>set (vd @ [(var, t)]). key_of ` set (snd p))"
    using ok by (auto simp: merged_ok_def merge_outer_keys)
next
  fix r' p assume r': "r' \<in> set (rows (merge_outer df var t))" and p: "p \<in> set (vd @ [(var, t)])"
  let ?goal = "(\<exists>x\<in>set (snd p). key_of x = row_key r' \<and> vals r' (fst p) = value_of x) \<or>
        (row_key r' \<notin> key_of ` set (snd p) \<and> vals r' (fst p) = None)"
  from ok have old: "\<And>r q. r \<in> set (rows df) \<Longrightarrow> q \<in> set vd \<Longrightarrow>
        (\<exists>x\<in>set (snd q). key_of x = row_key r \<and> vals r (fst q) = value_of x) \<or>
        (row_key r \<notin> key_of ` set (snd q) \<and> vals r (fst q) = None)"
    and keys: "row_key ` set (rows df) = (\<Union>p\<in>set vd. key_of ` set (snd p))"
    by (auto simp: merged_ok_def)
  from r' consider
      (matched) l x where "l \<in> set (rows df)" "x \<in> set t" "key_of x = row_key l"
          "r' = l\<lparr>vals := (vals l)(var := value_of x)\<rparr>"
    | (unmatched) l where "l \<in> set (rows df)" "\<forall>x\<in>set t. key_of x \<noteq> row_key l"
          "r' = l\<lparr>vals := (vals l)(var := None)\<rparr>"
    | (right) x where "x \<in> set t" "key_of x \<notin> row_key ` set (rows df)"
          "r' = \<lparr>row_key = key_of x, vals = (\<lambda>c. None)(var := value_of x)\<rparr>"
    unfolding merge_outer_rows by blast
  then show ?goal
  proof cases
    case matched
    show ?thesis
    proof (cases "p \<in> set vd")
      case True
      with new have "fst p \<noteq> var" by auto
      with old[OF matched(1) True] matched(4) show ?thesis by simp
    next
      case False
      with p have "p = (var, t)" by simp
      with matched show ?thesis by auto
    qed
  next
    case unmatched
    show ?thesis
    proof (cases "p \<in> set vd")
      case True
      with new have "fst p \<noteq> var" by auto
      with old[OF unmatched(1) True] unmatched(3) show ?thesis by simp
    next
      case False
      with p have "p = (var, t)" by simp
      with unmatched show ?thesis by auto
    qed
  next
    case right
    show ?thesis
    proof (cases "p \<in> set vd")
      case True
      with new have ne: "fst p \<noteq> var" by auto
      from right(2) keys True have "key_of x \<notin> key_of ` set (snd p)" by blast
      with ne right(3) show ?thesis by simp
    next
      case False
      with p have "p = (var, t)" by simp
      with right show ?thesis by auto
    qed
  qed
qed

lemma merged_ok_foldl:
  "merged_ok vd df \<Longrightarrow> distinct (map fst (vd @ others)) \<Longrightarrow>
     merged_ok (vd @ others)
       (foldl (\<lambda>result_df (var, df). merge_outer result_df var df) df others)"
proof (induction others arbitrary: vd df)
  case Nil then show ?case by simp
next
  case (Cons entry others)
  obtain var t where o: "entry = (var, t)" by (cases entry)
  from Cons.prems(2) o have new: "var \<notin> fst ` set vd" by auto
  have "merged_ok ((vd @ [(var, t)]) @ others)
       (foldl (\<lambda>result_df (var, df). merge_outer result_df var df) (merge_outer df var t) others)"
    by (rule Cons.IH[OF merged_ok_step[OF Cons.prems(1) new]]) (use Cons.prems(2) o in simp)
  with o show ?case by simp
qed

lemma merge_variables_wide_format_ok:
  assumes "variable_data \<noteq> []" and "distinct (map fst variable_data)"
  shows "\<exists>df. merge_variables_wide_format variable_data = Inr df \<and> merged_ok variable_data df"
proof -
  from assms(1) obtain var t others where vd: "variable_data = (var, t) # others"
    by (cases variable_data) auto
  have "merged_ok ([(var, t)] @ others)
       (foldl (\<lambda>result_df (var, df). merge_outer result_df var df) (frame_of_long var t) others)"
    by (rule merged_ok_foldl[OF merged_ok_first]) (use assms(2) vd in simp)
  then show ?thesis by (simp add: merge_variables_wide_format_def vd)
qed

subsection \<open>One row per key\<close>

lemma filter_key_le1:
  "distinct (map f xs) \<Longrightarrow> length (filter (\<lambda>x. f x = k) xs) \<le> 1"
proof (induction xs)
  case Nil then show ?case by simp
next
  case (Cons x xs)
  show ?case
  proof (cases "f x = k")
    case True
    with Cons.prems have "\<forall>y\<in>set xs. f y \<noteq> k" by (auto simp: image_iff)
    then have "filter (\<lambda>x. f x = k) xs = []" by (simp add: filter_empty_conv)
    with True show ?thesis by simp
  next
    case False
    with Cons show ?thesis by simp
  qed
qed

lemma left_rows_keys_single:
  assumes "distinct (map key_of R)"
  shows "map row_key (left_rows var R l) = [row_key l]"
proof (cases "filter (\<lambda>r. key_of r = row_key l) R")
  case Nil
  then show ?thesis by (simp add: left_rows_def)
next
  case (Cons m ms)
  from filter_key_le1[OF assms, of "row_key l"] Cons have "ms = []" by simp
  with Cons show ?thesis by (simp add: left_rows_def)
qed

lemma left_part_keys:
  assumes "distinct (map key_of R)"
  shows "map row_key (concat (map (left_rows var R) ls)) = map row_key ls"
  by (induction ls) (simp_all add: left_rows_keys_single[OF assms])

lemma merge_outer_key_list:
  assumes "distinct (map key_of R)"
  shows "map row_key (rows (merge_outer L var R)) =
     map row_key (rows L) @ map key_of (filter (\<lambda>r. key_of r \<notin> row_key ` set (rows L)) R)"
  by (simp add: merge_outer_rows_eq left_part_keys[OF assms] o_def)

lemma merge_outer_distinct:
  assumes l: "distinct (map row_key (rows L))" and r: "distinct (map key_of R)"
  shows "distinct (map row_key (rows (merge_outer L var R)))"
proof -
  have "distinct (map key_of (filter (\<lambda>r. key_of r \<notin> row_key ` set (rows L)) R))"
    using r by (rule distinct_map_filter)
  then show ?thesis
    unfolding merge_outer_key_list[OF r] using l by auto
qed

lemma foldl_merge_distinct:
  "distinct (map row_key (rows df)) \<Longrightarrow> \<forall>p\<in>set others. distinct (map key_of (snd p)) \<Longrightarrow>
     distinct (map row_key (rows
       (foldl (\<lambda>result_df (var, df). merge_outer result_df var df) df others)))"
proof (induction others arbitrary: df)
  case Nil then show ?case by simp
next
  case (Cons entry others)
  obtain var t where e: "entry = (var, t)" by (cases entry)
  with Cons.prems have "distinct (map key_of t)" by simp
  from merge_outer_distinct[OF Cons.prems(1) this]
  have "distinct (map row_key (rows (merge_outer df var t)))" .
  from Cons.IH[OF this] Cons.prems(2) e show ?case by simp
qed

lemma merge_variables_wide_format_distinct:
  assumes "merge_variables_wide_format variable_data = Inr df"
      and "\<forall>p\<in>set variable_data. distinct (map key_of (snd p))"
  shows "distinct (map row_key (rows df))"
proof -
  from assms(1) obtain var t others where vd: "variable_data = (var, t) # others"
    by (cases variable_data) (auto simp: merge_variables_wide_format_def)
  have first: "distinct (map row_key (rows (frame_of_long var t)))"
    using assms(2) vd by (simp add: frame_of_long_def o_def)
  have "distinct (map row_key (rows
       (foldl (\<lambda>result_df (var, df). merge_outer result_df var df) (frame_of_long var t) others)))"
    by (rule foldl_merge_distinct[OF first]) (use assms(2) vd in simp)
  with assms(1) vd show ?thesis by (simp add: merge_variables_wide_format_def)
qed

text \<open>
  Claim C6. For a non-empty dictionary of long tables (its keys are distinct, as the keys
  of a dictionary are), \<open>merge_variables_wide_format\<close> returns a frame with one column
  per variable whose keys \<open>(accession_id, year, month)\<close> are exactly the keys of all
  the tables together. In every row, the cell of every variable is a value that the
  variable's table has for the key of the row, and it is missing exactly when the table
  has no row for that key (or has a missing value there): tables are joined on the key,
  not stacked. So a row whose key occurs in the table of one variable only carries a
  value of that table in the column of the variable, and a missing cell in the column of
  every other variable. When no table repeats a key, the frame has one row per key.
\<close>

theorem merge_variables_wide_format_outer:
  assumes "variable_data \<noteq> []" and "distinct (map fst variable_data)"
  shows "\<exists>df. merge_variables_wide_format variable_data = Inr df \<and>
     value_columns df = map fst variable_data \<and>
     row_key ` set (rows df) = (\<Union>p\<in>set variable_data. key_of ` set (snd p)) \<and>
     (\<forall>r\<in>set (rows df). \<forall>p\<in>set variable_data.
        (\<exists>x\<in>set (snd p). key_of x = row_key r \<and> vals r (fst p) = value_of x) \<or>
        (row_key r \<notin> key_of ` set (snd p) \<and> vals r (fst p) = None)) \<and>
     (\<forall>a\<in>set variable_data. \<forall>r\<in>set (rows df).
        row_key r \<in> key_of ` set (snd a) \<and>
        (\<forall>b\<in>set variable_data. fst b \<noteq> fst a \<longrightarrow> row_key r \<notin> key_of ` set (snd b)) \<longrightarrow>
        (\<exists>x\<in>set (snd a). key_of x = row_key r \<and> vals r (fst a) = value_of x) \<and>
        (\<forall>b\<in>set variable_data. fst b \<noteq> fst a \<longrightarrow> vals r (fst b) = None)) \<and>
     ((\<forall>p\<in>set variable_data. distinct (map key_of (snd p))) \<longrightarrow>
        distinct (map row_key (rows df)))"
proof -
  from merge_variables_wide_format_ok[OF assms] obtain df where
    m: "merge_variables_wide_format variable_data = Inr df" and ok: "merged_ok variable_data df"
    by blast
  note ok' = ok[unfolded merged_ok_def]
  from ok' have cols: "value_columns df = map fst variable_data" by (elim conjE)
  from ok' have keys:
    "row_key ` set (rows df) = (\<Union>p\<in>set variable_data. key_of ` set (snd p))"
    by (elim conjE)
  from ok' have all_cells: "\<forall>r\<in>set (rows df). \<forall>p\<in>set variable_data.
        (\<exists>x\<in>set (snd p). key_of x = row_key r \<and> vals r (fst p) = value_of x) \<or>
        (row_key r \<notin> key_of ` set (snd p) \<and> vals r (fst p) = None)"
    by (elim conjE)
  from all_cells have cells: "\<And>r p. r \<in> set (rows df) \<Longrightarrow> p \<in> set variable_data \<Longrightarrow>
        (\<exists>x\<in>set (snd p). key_of x = row_key r \<and> vals r (fst p) = value_of x) \<or>
        (row_key r \<notin> key_of ` set (snd p) \<and> vals r (fst p) = None)"
    by blast
  have single: "\<forall>a\<in>set variable_data. \<forall>r\<in>set (rows df).
        row_key r \<in> key_of ` set (snd a) \<and>
        (\<forall>b\<in>set variable_data. fst b \<noteq> fst a \<longrightarrow> row_key r \<notin> key_of ` set (snd b)) \<longrightarrow>
        (\<exists>x\<in>set (snd a). key_of x = row_key r \<and> vals r (fst a) = value_of x) \<and>
        (\<forall>b\<in>set variable_data. fst b \<noteq> fst a \<longrightarrow> vals r (fst b) = None)"
  proof (intro ballI impI, elim conjE)
    fix a r
    assume a: "a \<in> set variable_data" and r: "r \<in> set (rows df)"
      and ka: "row_key r \<in> key_of ` set (snd a)"
      and only: "\<forall>b\<in>set variable_data. fst b \<noteq> fst a \<longrightarrow> row_key r \<notin> key_of ` set (snd b)"
    from cells[OF r a] ka have 1: "\<exists>x\<in>set (snd a). key_of x = row_key r \<and> vals r (fst a) = value_of x"
      by blast
    have 2: "\<forall>b\<in>set variable_data. fst b \<noteq> fst a \<longrightarrow> vals r (fst b) = None"
    proof (intro ballI impI)
      fix b assume b: "b \<in> set variable_data" "fst b \<noteq> fst a"
      with only have "row_key r \<notin> key_of ` set (snd b)" by blast
      with cells[OF r b(1)] show "vals r (fst b) = None" by (metis imageI)
    qed
    from 1 2 show "(\<exists>x\<in>set (snd a). key_of x = row_key r \<and> vals r (fst a) = value_of x) \<and>
        (\<forall>b\<in>set variable_data. fst b \<noteq> fst a \<longrightarrow> vals r (fst b) = None)" ..
  qed
  have one: "(\<forall>p\<in>set variable_data. distinct (map key_of (snd p))) \<longrightarrow>
        distinct (map row_key (rows df))"
    using merge_variables_wide_format_distinct[OF m] by blast
  show ?thesis
    by (rule exI[of _ df]) (intro conjI m cols keys all_cells single one)
qed

lemmas merge_eval = merge_variables_wide_format_def merge_outer_def left_rows_def frame_of_long_def
  key_of_def value_of_def demo_tables_def

theorem merge_variables_wide_format_outer_witness:
  "demo_tables \<noteq> [] \<and> distinct (map fst demo_tables) \<and>
   list_all (\<lambda>p. distinct (map key_of (snd p))) demo_tables \<and>
   (\<exists>df. merge_variables_wide_format demo_tables = Inr df \<and>
      value_columns df = [''tmax'', ''tmin''] \<and>
      row_key ` set (rows df) = {(''a'', 2000, 1), (''a'', 2000, 2), (''b'', 2000, 1)} \<and>
      distinct (map row_key (rows df)))"
proof -
  have h1: "demo_tables \<noteq> []" by (simp add: demo_tables_def)
  have h2: "distinct (map fst demo_tables)" by (simp add: demo_tables_def)
  have h3: "\<forall>p\<in>set demo_tables. distinct (map key_of (snd p))"
    by (simp add: demo_tables_def key_of_def)
  have k: "(\<Union>p\<in>set demo_tables. key_of ` set (snd p)) =
      {(''a'', 2000, 1), (''a'', 2000, 2), (''b'', 2000, 1)}"
    by (auto simp: demo_tables_def key_of_def)
  have c: "map fst demo_tables = [''tmax'', ''tmin'']" by (simp add: demo_tables_def)
  from merge_variables_wide_format_outer[OF h1 h2]
  obtain df where 1: "merge_variables_wide_format demo_tables = Inr df"
    and 2: "value_columns df = map fst demo_tables"
    and 3: "row_key ` set (rows df) = (\<Union>p\<in>set demo_tables. key_of ` set (snd p))"
    and 4: "(\<forall>p\<in>set demo_tables. distinct (map key_of (snd p))) \<longrightarrow>
        distinct (map row_key (rows df))"
    by (elim exE conjE)
  from 4 h3 have 5: "distinct (map row_key (rows df))" by (rule mp)
  from h3 have h3': "list_all (\<lambda>p. distinct (map key_of (snd p))) demo_tables"
    by (simp add: list_all_iff)
  from 1 2 3 5 h1 h2 h3' show ?thesis unfolding k c by (intro conjI exI)
qed

text \<open>
  The merged frame of the two tables: the key they share has both values in one row.
\<close>

lemma merge_variables_wide_format_demo:
  "map_sum id (\<lambda>df. map (\<lambda>r. (row_key r, vals r ''tmax'', vals r ''tmin'')) (rows df))
     (merge_variables_wide_format demo_tables) =
   Inr [((''a'', 2000, 1), Some (Num 30), Some (Num 10)),
        ((''a'', 2000, 2), Some (Num 31), None),
        ((''b'', 2000, 1), None, Some (Num 5))]"
  by (simp add: merge_eval)

subsection \<open>Derived indices\<close>

lemma rows_set_column:
  "rows (set_column df name f) = map (\<lambda>r. r\<lparr>vals := (vals r)(name := f r)\<rparr>) (rows df)"
  by (simp add: set_column_def)

lemma columns_set_column:
  "c \<in> set (df_columns (set_column df name f)) \<longleftrightarrow> c = name \<or> c \<in> set (df_columns df)"
  by (auto simp: set_column_def df_columns_def)

lemma column_set_column:
  "column (set_column df name f) c = (if c = name then map f (rows df) else column df c)"
  by (simp add: column_def rows_set_column o_def)

lemma keys_set_column: "map row_key (rows (set_column df name f)) = map row_key (rows df)"
  by (simp add: rows_set_column o_def)

lemma guarded_cols:
  "c \<in> set (df_columns (if b then set_column df n f else df)) \<longleftrightarrow>
     (b \<and> c = n) \<or> c \<in> set (df_columns df)"
  by (auto simp: columns_set_column)

lemma guarded_column:
  "column (if b then set_column df n f else df) c =
     (if b \<and> c = n then map f (rows df) else column df c)"
  by (simp add: column_set_column)

lemma guarded_keys:
  "map row_key (rows (if b then set_column df n f else df)) = map row_key (rows df)"
  by (simp add: keys_set_column)

lemma map_sub_list:
  "map (\<lambda>r. cell_sub (vals r a) (vals r b)) rs =
     map (\<lambda>(x, y). cell_sub x y) (zip (map (\<lambda>r. vals r a) rs) (map (\<lambda>r. vals r b) rs))"
  by (induction rs) simp_all

lemma map_sub_columns:
  "map (\<lambda>r. cell_sub (vals r a) (vals r b)) (rows d) =
     map (\<lambda>(x, y). cell_sub x y) (zip (column d a) (column d b))"
  unfolding column_def by (rule map_sub_list)

text \<open>
  Claim C7, as amended. \<open>add_derived_climate_indices\<close> keeps the rows (their keys,
  in order) and every column that does not bear the name of a derived index, cell for
  cell. A derived column is computed exactly when both of its input columns are present,
  and then it is, row by row, \<open>pet / (ppt + 0.1)\<close> for \<open>aridity_index\<close>,
  \<open>ppt - aet\<close> for \<open>water_balance\<close>, \<open>tmax - tmin\<close> for \<open>temp_range\<close> and
  \<open>soil - def\<close> for \<open>moisture_availability\<close>, replacing a column of that name that
  the frame had before; when an input is absent, the frame is as before for that name.
  On numbers the operations are the difference and the quotient of the reals; the
  quotient by a divisor \<open>ppt + 0.1\<close> that is zero is infinite (missing when \<open>pet\<close>
  is zero too); a missing operand gives a missing result.
\<close>

theorem add_derived_climate_indices_columns:
  "map row_key (rows (add_derived_climate_indices df)) = map row_key (rows df) \<and>
   (\<forall>c. c \<notin> set [''aridity_index'', ''water_balance'', ''temp_range'', ''moisture_availability'']
      \<longrightarrow> column (add_derived_climate_indices df) c = column df c \<and>
          (c \<in> set (df_columns (add_derived_climate_indices df))) = (c \<in> set (df_columns df))) \<and>
   (if ''pet'' \<in> set (df_columns df) \<and> ''ppt'' \<in> set (df_columns df)
    then ''aridity_index'' \<in> set (df_columns (add_derived_climate_indices df)) \<and>
         column (add_derived_climate_indices df) ''aridity_index'' =
           map (\<lambda>r. cell_div (vals r ''pet'') (cell_add (vals r ''ppt'') (Some (Num (1 / 10))))) (rows df)
    else column (add_derived_climate_indices df) ''aridity_index'' = column df ''aridity_index'' \<and>
         (''aridity_index'' \<in> set (df_columns (add_derived_climate_indices df)))
           = (''aridity_index'' \<in> set (df_columns df))) \<and>
   (if ''ppt'' \<in> set (df_columns df) \<and> ''aet'' \<in> set (df_columns df)
    then ''water_balance'' \<in> set (df_columns (add_derived_climate_indices df)) \<and>
         column (add_derived_climate_indices df) ''water_balance'' =
           map (\<lambda>r. cell_sub (vals r ''ppt'') (vals r ''aet'')) (rows df)
    else column (add_derived_climate_indices df) ''water_balance'' = column df ''water_balance'' \<and>
         (''water_balance'' \<in> set (df_columns (add_derived_climate_indices df)))
           = (''water_balance'' \<in> set (df_columns df))) \<and>
   (if ''tmax'' \<in> set (df_columns df) \<and> ''tmin'' \<in> set (df_columns df)
    then ''temp_range'' \<in> set (df_columns (add_derived_climate_indices df)) \<and>
         column (add_derived_climate_indices df) ''temp_range'' =
           map (\<lambda>r. cell_sub (vals r ''tmax'') (vals r ''tmin'')) (rows df)
    else column (add_derived_climate_indices df) ''temp_range'' = column df ''temp_range'' \<and>
         (''temp_range'' \<in> set (df_columns (add_derived_climate_indices df)))
           = (''temp_range'' \<in> set (df_columns df))) \<and>
   (if ''soil'' \<in> set (df_columns df) \<and> ''def'' \<in> set (df_columns df)
    then ''moisture_availability'' \<in> set (df_columns (add_derived_climate_indices df)) \<and>
         column (add_derived_climate_indices df) ''moisture_availability'' =
           map (\<lambda>r. cell_sub (vals r ''soil'') (vals r ''def'')) (rows df)
    else column (add_derived_climate_indices df) ''moisture_availability''
           = column df ''moisture_availability'' \<and>
         (''moisture_availability'' \<in> set (df_columns (add_derived_climate_indices df)))
           = (''moisture_availability'' \<in> set (df_columns df))) \<and>
   (\<forall>x y. cell_sub (Some (Num x)) (Some (Num y)) = Some (Num (x - y))) \<and>
   (\<forall>x y. cell_div (Some (Num x)) (cell_add (Some (Num y)) (Some (Num (1 / 10)))) =
      (if y + 1 / 10 \<noteq> 0 then Some (Num (x / (y + 1 / 10)))
       else if x > 0 then Some PInf else if x < 0 then Some NInf else None))"
proof -
  define df1 where "df1 = (if ''pet'' \<in> set (df_columns df) \<and> ''ppt'' \<in> set (df_columns df)
                 then set_column df ''aridity_index'' aridity else df)"
  define df2 where "df2 = (if ''ppt'' \<in> set (df_columns df1) \<and> ''aet'' \<in> set (df_columns df1)
                 then set_column df1 ''water_balance''
                        (\<lambda>r. cell_sub (vals r ''ppt'') (vals r ''aet''))
                 else df1)"
  define df3 where "df3 = (if ''tmax'' \<in> set (df_columns df2) \<and> ''tmin'' \<in> set (df_columns df2)
                 then set_column df2 ''temp_range''
                        (\<lambda>r. cell_sub (vals r ''tmax'') (vals r ''tmin''))
                 else df2)"
  define df4 where "df4 = (if ''soil'' \<in> set (df_columns df3) \<and> ''def'' \<in> set (df_columns df3)
                 then set_column df3 ''moisture_availability''
                        (\<lambda>r. cell_sub (vals r ''soil'') (vals r ''def''))
                 else df3)"
  have out: "add_derived_climate_indices df = df4"
    unfolding add_derived_climate_indices_def Let_def df1_def df2_def df3_def df4_def ..
  have cols1: "\<And>c. c \<in> set (df_columns df1) \<longleftrightarrow>
      ((''pet'' \<in> set (df_columns df) \<and> ''ppt'' \<in> set (df_columns df)) \<and> c = ''aridity_index'')
      \<or> c \<in> set (df_columns df)"
    unfolding df1_def by (rule guarded_cols)
  have cols2: "\<And>c. c \<in> set (df_columns df2) \<longleftrightarrow>
      ((''ppt'' \<in> set (df_columns df1) \<and> ''aet'' \<in> set (df_columns df1)) \<and> c = ''water_balance'')
      \<or> c \<in> set (df_columns df1)"
    unfolding df2_def by (rule guarded_cols)
  have cols3: "\<And>c. c \<in> set (df_columns df3) \<longleftrightarrow>
      ((''tmax'' \<in> set (df_columns df2) \<and> ''tmin'' \<in> set (df_columns df2)) \<and> c = ''temp_range'')
      \<or> c \<in> set (df_columns df2)"
    unfolding df3_def by (rule guarded_cols)
  have cols4: "\<And>c. c \<in> set (df_columns df4) \<longleftrightarrow>
      ((''soil'' \<in> set (df_columns df3) \<and> ''def'' \<in> set (df_columns df3))
         \<and> c = ''moisture_availability'')
      \<or> c \<in> set (df_columns df3)"
    unfolding df4_def by (rule guarded_cols)
  have col1: "\<And>c. column df1 c =
      (if (''pet'' \<in> set (df_columns df) \<and> ''ppt'' \<in> set (df_columns df)) \<and> c = ''aridity_index''
       then map aridity (rows df) else column df c)"
    unfolding df1_def by (rule guarded_column)
  have col2: "\<And>c. column df2 c =
      (if (''ppt'' \<in> set (df_columns df1) \<and> ''aet'' \<in> set (df_columns df1)) \<and> c = ''water_balance''
       then map (\<lambda>r. cell_sub (vals r ''ppt'') (vals r ''aet'')) (rows df1) else column df1 c)"
    unfolding df2_def by (rule guarded_column)
  have col3: "\<And>c. column df3 c =
      (if (''tmax'' \<in> set (df_columns df2) \<and> ''tmin'' \<in> set (df_columns df2)) \<and> c = ''temp_range''
       then map (\<lambda>r. cell_sub (vals r ''tmax'') (vals r ''tmin'')) (rows df2) else column df2 c)"
    unfolding df3_def by (rule guarded_column)
  have col4: "\<And>c. column df4 c =
      (if (''soil'' \<in> set (df_columns df3) \<and> ''def'' \<in> set (df_columns df3))
          \<and> c = ''moisture_availability''
       then map (\<lambda>r. cell_sub (vals r ''soil'') (vals r ''def'')) (rows df3) else column df3 c)"
    unfolding df4_def by (rule guarded_column)
  have keys: "map row_key (rows df4) = map row_key (rows df)"
    unfolding df4_def guarded_keys df3_def df2_def df1_def ..
  have in1: "\<And>c. c \<noteq> ''aridity_index'' \<Longrightarrow>
      column df1 c = column df c \<and> (c \<in> set (df_columns df1)) = (c \<in> set (df_columns df))"
    by (simp add: col1 cols1)
  have in2: "\<And>c. c \<noteq> ''water_balance'' \<Longrightarrow>
      column df2 c = column df1 c \<and> (c \<in> set (df_columns df2)) = (c \<in> set (df_columns df1))"
    by (simp add: col2 cols2)
  have in3: "\<And>c. c \<noteq> ''temp_range'' \<Longrightarrow>
      column df3 c = column df2 c \<and> (c \<in> set (df_columns df3)) = (c \<in> set (df_columns df2))"
    by (simp add: col3 cols3)
  have in4: "\<And>c. c \<noteq> ''moisture_availability'' \<Longrightarrow>
      column df4 c = column df3 c \<and> (c \<in> set (df_columns df4)) = (c \<in> set (df_columns df3))"
    by (simp add: col4 cols4)
  have other: "\<forall>c. c \<notin> set [''aridity_index'', ''water_balance'', ''temp_range'',
        ''moisture_availability'']
      \<longrightarrow> column df4 c = column df c \<and> (c \<in> set (df_columns df4)) = (c \<in> set (df_columns df))"
    using in1 in2 in3 in4 by simp
  have a: "if ''pet'' \<in> set (df_columns df) \<and> ''ppt'' \<in> set (df_columns df)
    then ''aridity_index'' \<in> set (df_columns df4) \<and>
         column df4 ''aridity_index'' =
           map (\<lambda>r. cell_div (vals r ''pet'') (cell_add (vals r ''ppt'') (Some (Num (1 / 10))))) (rows df)
    else column df4 ''aridity_index'' = column df ''aridity_index'' \<and>
         (''aridity_index'' \<in> set (df_columns df4)) = (''aridity_index'' \<in> set (df_columns df))"
  proof -
    have "column df4 ''aridity_index'' = column df1 ''aridity_index'' \<and>
        (''aridity_index'' \<in> set (df_columns df4)) = (''aridity_index'' \<in> set (df_columns df1))"
      using in2[of "''aridity_index''"] in3[of "''aridity_index''"] in4[of "''aridity_index''"]
      by simp
    then show ?thesis by (auto simp: col1 cols1 aridity_def)
  qed
  have w: "if ''ppt'' \<in> set (df_columns df) \<and> ''aet'' \<in> set (df_columns df)
    then ''water_balance'' \<in> set (df_columns df4) \<and>
         column df4 ''water_balance'' =
           map (\<lambda>r. cell_sub (vals r ''ppt'') (vals r ''aet'')) (rows df)
    else column df4 ''water_balance'' = column df ''water_balance'' \<and>
         (''water_balance'' \<in> set (df_columns df4)) = (''water_balance'' \<in> set (df_columns df))"
  proof -
    have up: "column df4 ''water_balance'' = column df2 ''water_balance'' \<and>
        (''water_balance'' \<in> set (df_columns df4)) = (''water_balance'' \<in> set (df_columns df2))"
      using in3[of "''water_balance''"] in4[of "''water_balance''"] by simp
    have down: "column df1 ''water_balance'' = column df ''water_balance'' \<and>
        (''water_balance'' \<in> set (df_columns df1)) = (''water_balance'' \<in> set (df_columns df))"
      using in1[of "''water_balance''"] by simp
    have ins: "column df1 ''ppt'' = column df ''ppt'' \<and> column df1 ''aet'' = column df ''aet'' \<and>
        (''ppt'' \<in> set (df_columns df1)) = (''ppt'' \<in> set (df_columns df)) \<and>
        (''aet'' \<in> set (df_columns df1)) = (''aet'' \<in> set (df_columns df))"
      using in1[of "''ppt''"] in1[of "''aet''"] by simp
    have f: "map (\<lambda>r. cell_sub (vals r ''ppt'') (vals r ''aet'')) (rows df1) =
        map (\<lambda>r. cell_sub (vals r ''ppt'') (vals r ''aet'')) (rows df)"
      unfolding map_sub_columns using ins by simp
    show ?thesis using up down ins f by (auto simp: col2 cols2)
  qed
  have t: "if ''tmax'' \<in> set (df_columns df) \<and> ''tmin'' \<in> set (df_columns df)
    then ''temp_range'' \<in> set (df_columns df4) \<and>
         column df4 ''temp_range'' =
           map (\<lambda>r. cell_sub (vals r ''tmax'') (vals r ''tmin'')) (rows df)
    else column df4 ''temp_range'' = column df ''temp_range'' \<and>
         (''temp_range'' \<in> set (df_columns df4)) = (''temp_range'' \<in> set (df_columns df))"
  proof -
    have up: "column df4 ''temp_range'' = column df3 ''temp_range'' \<and>
        (''temp_range'' \<in> set (df_columns df4)) = (''temp_range'' \<in> set (df_columns df3))"
      using in4[of "''temp_range''"] by simp
    have down: "column df2 ''temp_range'' = column df ''temp_range'' \<and>
        (''temp_range'' \<in> set (df_columns df2)) = (''temp_range'' \<in> set (df_columns df))"
      using in1[of "''temp_range''"] in2[of "''temp_range''"] by simp
    have ins: "column df2 ''tmax'' = column df ''tmax'' \<and> column df2 ''tmin'' = column df ''tmin'' \<and>
        (''tmax'' \<in> set (df_columns df2)) = (''tmax'' \<in> set (df_columns df)) \<and>
        (''tmin'' \<in> set (df_columns df2)) = (''tmin'' \<in> set (df_columns df))"
      using in1[of "''tmax''"] in1[of "''tmin''"] in2[of "''tmax''"] in2[of "''tmin''"] by simp
    have f: "map (\<lambda>r. cell_sub (vals r ''tmax'') (vals r ''tmin'')) (rows df2) =
        map (\<lambda>r. cell_sub (vals r ''tmax'') (vals r ''tmin'')) (rows df)"
      unfolding map_sub_columns using ins by simp
    show ?thesis using up down ins f by (auto simp: col3 cols3)
  qed
  have m: "if ''soil'' \<in> set (df_columns df) \<and> ''def'' \<in> set (df_columns df)
    then ''moisture_availability'' \<in> set (df_columns df4) \<and>
         column df4 ''moisture_availability'' =
           map (\<lambda>r. cell_sub (vals r ''soil'') (vals r ''def'')) (rows df)
    else column df4 ''moisture_availability'' = column df ''moisture_availability'' \<and>
         (''moisture_availability'' \<in> set (df_columns df4))
           = (''moisture_availability'' \<in> set (df_columns df))"
  proof -
    have down: "column df3 ''moisture_availability'' = column df ''moisture_availability'' \<and>
        (''moisture_availability'' \<in> set (df_columns df3))
          = (''moisture_availability'' \<in> set (df_columns df))"
      using in1[of "''moisture_availability''"] in2[of "''moisture_availability''"]
        in3[of "''moisture_availability''"] by simp
    have ins: "column df3 ''soil'' = column df ''soil'' \<and> column df3 ''def'' = column df ''def'' \<and>
        (''soil'' \<in> set (df_columns df3)) = (''soil'' \<in> set (df_columns df)) \<and>
        (''def'' \<in> set (df_columns df3)) = (''def'' \<in> set (df_columns df))"
      using in1[of "''soil''"] in1[of "''def''"] in2[of "''soil''"] in2[of "''def''"]
        in3[of "''soil''"] in3[of "''def''"] by simp
    have f: "map (\<lambda>r. cell_sub (vals r ''soil'') (vals r ''def'')) (rows df3) =
        map (\<lambda>r. cell_sub (vals r ''soil'') (vals r ''def'')) (rows df)"
      unfolding map_sub_columns using ins by simp
    show ?thesis using down ins f by (auto simp: col4 cols4)
  qed
  have ar1: "\<forall>x y. cell_sub (Some (Num x)) (Some (Num y)) = Some (Num (x - y))"
    by (simp add: cell_sub_def)
  have ar2: "\<forall>x y. cell_div (Some (Num x)) (cell_add (Some (Num y)) (Some (Num (1 / 10)))) =
      (if y + 1 / 10 \<noteq> 0 then Some (Num (x / (y + 1 / 10)))
       else if x > 0 then Some PInf else if x < 0 then Some NInf else None)"
    by simp
  show ?thesis unfolding out using keys other a w t m ar1 ar2 by (intro conjI)
qed


theorem add_derived_climate_indices_columns_witness:
  "column (add_derived_climate_indices demo_frame) ''water_balance'' = [Some (Num 60)] \<and>
   column (add_derived_climate_indices demo_frame) ''temp_range'' = [Some (Num 20)] \<and>
   column (add_derived_climate_indices demo_frame) ''aridity_index''
     = [Some (Num (50 / (100 + 1 / 10)))] \<and>
   column (add_derived_climate_indices demo_frame) ''tmax'' = [Some (Num 30)] \<and>
   ''water_balance'' \<in> set (df_columns (add_derived_climate_indices demo_frame)) \<and>
   ''moisture_availability'' \<notin> set (df_columns (add_derived_climate_indices demo_frame))"
proof -
  note t = add_derived_climate_indices_columns[of demo_frame]
  have cols: "df_columns demo_frame =
      [''accession_id'', ''year'', ''month'', ''pet'', ''ppt'', ''aet'', ''tmax'', ''tmin'']"
    by (simp add: df_columns_def key_columns_def demo_frame_def)
  have r: "rows demo_frame = [\<lparr>row_key = (''a'', 2000, 1),
               vals = (\<lambda>c. None)(''pet'' := Some (Num 50), ''ppt'' := Some (Num 100),
                                 ''aet'' := Some (Num 40), ''tmax'' := Some (Num 30),
                                 ''tmin'' := Some (Num 10))\<rparr>]"
    by (simp add: demo_frame_def)
  from t have
    "column (add_derived_climate_indices demo_frame) ''water_balance'' = [Some (Num 60)]"
    by (simp add: cols r cell_sub_def)
  moreover from t have
    "column (add_derived_climate_indices demo_frame) ''temp_range'' = [Some (Num 20)]"
    by (simp add: cols r cell_sub_def)
  moreover from t have
    "column (add_derived_climate_indices demo_frame) ''aridity_index''
       = [Some (Num (50 / (100 + 1 / 10)))]"
    by (simp add: cols r)
  moreover from t have
    "column (add_derived_climate_indices demo_frame) ''tmax'' = [Some (Num 30)]"
    by (simp add: cols r column_def[of demo_frame])
  moreover from t have
    "''water_balance'' \<in> set (df_columns (add_derived_climate_indices demo_frame))"
    by (simp add: cols)
  moreover from t have
    "''moisture_availability'' \<notin> set (df_columns (add_derived_climate_indices demo_frame))"
    by (simp add: cols)
  ultimately show ?thesis by (intro conjI)
qed

lemmas derived_eval = add_derived_climate_indices_def set_column_def df_columns_def
  key_columns_def column_def aridity_def cell_sub_def Let_def

text \<open>
  The claim as it stands fails: a frame that already has a column \<open>water_balance\<close>
  (here with the value 999) comes back with that column overwritten by \<open>ppt - aet\<close>.
\<close>

theorem add_derived_climate_indices_overwrites:
  "''water_balance'' \<in> set (df_columns overwritten_frame) \<and>
   column overwritten_frame ''water_balance'' = [Some (Num 999)] \<and>
   column (add_derived_climate_indices overwritten_frame) ''water_balance'' = [Some (Num 60)]"
  by (simp add: derived_eval overwritten_frame_def)

text \<open>With \<open>ppt = -0.1\<close> the divisor is zero and the aridity index is infinite.\<close>

lemma add_derived_climate_indices_zero_divisor:
  "column (add_derived_climate_indices dry_frame) ''aridity_index'' = [Some PInf]"
  by (simp add: derived_eval dry_frame_def)

subsection \<open>Aggregation\<close>

lemma aggregate_grouped: "grouped keyf stat_names variables df (aggregate keyf gc variables stat_names df)"
proof -
  have g: "map group (arows (aggregate keyf gc variables stat_names df)) = group_keys keyf (rows df)"
    by (simp add: aggregate_def o_def)
  have d: "distinct (group_keys keyf (rows df))" by (simp add: group_keys_def)
  have s: "set (group_keys keyf (rows df)) = {g. \<exists>r\<in>set (rows df). keyf r = Some g}"
  proof -
    have "\<And>rs. set (List.map_filter keyf rs) = {g. \<exists>r\<in>set rs. keyf r = Some g}"
    proof -
      fix rs show "set (List.map_filter keyf rs) = {g. \<exists>r\<in>set rs. keyf r = Some g}"
        by (induction rs) (auto simp: List.map_filter_simps split: option.splits)
    qed
    then show ?thesis by (simp add: group_keys_def)
  qed
  show ?thesis
    unfolding grouped_def g
    by (intro conjI d s) (auto simp: aggregate_def)
qed

lemma prepare_summary:
  "merge_variables_wide_format vd = Inr merged \<Longrightarrow>
   prepare_for_gwas vd ''summary'' d =
     Inr (Aggregated (compute_climate_summaries
        (if d then add_derived_climate_indices merged else merged)
        (climate_vars_of (if d then add_derived_climate_indices merged else merged))))"
  by (simp add: prepare_for_gwas_def Let_def)

lemma prepare_annual:
  "merge_variables_wide_format vd = Inr merged \<Longrightarrow>
   prepare_for_gwas vd ''annual'' d =
     Inr (Aggregated (aggregate by_year [''accession_id'', ''year'']
        (climate_vars_of (if d then add_derived_climate_indices merged else merged))
        [''mean'', ''std'', ''min'', ''max'']
        (if d then add_derived_climate_indices merged else merged)))"
  by (simp add: prepare_for_gwas_def Let_def compute_temporal_aggregates_def)

lemma prepare_seasonal:
  "merge_variables_wide_format vd = Inr merged \<Longrightarrow>
   prepare_for_gwas vd ''seasonal'' d =
     Inr (Aggregated (aggregate by_season [''accession_id'', ''year'', ''season'']
        (climate_vars_of (if d then add_derived_climate_indices merged else merged))
        [''mean'', ''std'', ''min'', ''max'']
        (if d then add_derived_climate_indices merged else merged)))"
  by (simp add: prepare_for_gwas_def Let_def compute_temporal_aggregates_def)

text \<open>
  Claim C8, as amended. On the merged frame (with the derived indices when they are
  asked for), \<open>prepare_for_gwas\<close> returns in \<open>summary\<close> mode exactly one row per
  accession, with the mean, std, min, max and median of every base and derived variable
  over the rows of the accession; in \<open>annual\<close> mode exactly one row per accession and
  year, and in \<open>seasonal\<close> mode exactly one row per accession, year and season, each
  with the mean, std, min and max of every variable within the group, and no median.
\<close>

theorem aggregation_modes_grouped:
  assumes m: "merge_variables_wide_format vd = Inr merged"
      and df: "df = (if d then add_derived_climate_indices merged else merged)"
  shows "\<exists>s a q.
      prepare_for_gwas vd ''summary'' d = Inr (Aggregated s) \<and>
      prepare_for_gwas vd ''annual'' d = Inr (Aggregated a) \<and>
      prepare_for_gwas vd ''seasonal'' d = Inr (Aggregated q) \<and>
      group_columns s = [''accession_id''] \<and>
      grouped by_accession [''mean'', ''std'', ''min'', ''max'', ''median''] (climate_vars_of df) df s \<and>
      group_columns a = [''accession_id'', ''year''] \<and>
      grouped by_year [''mean'', ''std'', ''min'', ''max''] (climate_vars_of df) df a \<and>
      group_columns q = [''accession_id'', ''year'', ''season''] \<and>
      grouped by_season [''mean'', ''std'', ''min'', ''max''] (climate_vars_of df) df q"
proof -
  let ?vars = "climate_vars_of df"
  let ?s = "compute_climate_summaries df ?vars"
  let ?a = "aggregate by_year [''accession_id'', ''year''] ?vars [''mean'', ''std'', ''min'', ''max''] df"
  let ?q = "aggregate by_season [''accession_id'', ''year'', ''season''] ?vars
              [''mean'', ''std'', ''min'', ''max''] df"
  have 1: "prepare_for_gwas vd ''summary'' d = Inr (Aggregated ?s)"
    unfolding df by (rule prepare_summary[OF m])
  have 2: "prepare_for_gwas vd ''annual'' d = Inr (Aggregated ?a)"
    unfolding df by (rule prepare_annual[OF m])
  have 3: "prepare_for_gwas vd ''seasonal'' d = Inr (Aggregated ?q)"
    unfolding df by (rule prepare_seasonal[OF m])
  have 4: "group_columns ?s = [''accession_id'']"
    by (simp add: compute_climate_summaries_def aggregate_def)
  have 5: "grouped by_accession [''mean'', ''std'', ''min'', ''max'', ''median''] ?vars df ?s"
    unfolding compute_climate_summaries_def by (rule aggregate_grouped)
  have 6: "group_columns ?a = [''accession_id'', ''year'']" by (simp add: aggregate_def)
  have 7: "grouped by_year [''mean'', ''std'', ''min'', ''max''] ?vars df ?a"
    by (rule aggregate_grouped)
  have 8: "group_columns ?q = [''accession_id'', ''year'', ''season'']" by (simp add: aggregate_def)
  have 9: "grouped by_season [''mean'', ''std'', ''min'', ''max''] ?vars df ?q"
    by (rule aggregate_grouped)
  show ?thesis
    by (rule exI[of _ ?s], rule exI[of _ ?a], rule exI[of _ ?q]) (intro conjI 1 2 3 4 5 6 7 8 9)
qed

lemma demo_merged_rows:
  "map (\<lambda>r. (row_key r, vals r ''tmax'', vals r ''tmin'')) (rows demo_merged) =
     [((''a'', 2000, 1), Some (Num 30), Some (Num 10)),
      ((''a'', 2000, 2), Some (Num 31), None),
      ((''b'', 2000, 1), None, Some (Num 5))]"
  by (simp add: demo_merged_def merge_outer_def left_rows_def frame_of_long_def key_of_def
      value_of_def)

lemma demo_merged_vars: "climate_vars_of demo_merged = [''tmax'', ''tmin'']"
  by (simp add: climate_vars_of_def df_columns_def key_columns_def demo_merged_def
      merge_outer_def frame_of_long_def)

lemma demo_merge: "merge_variables_wide_format demo_tables = Inr demo_merged"
  by (simp add: merge_variables_wide_format_def demo_tables_def demo_merged_def)

lemma flat_names:
  "map (flat_name ''tmax'') [''mean'', ''std'', ''min'', ''max''] =
     [''tmax_mean'', ''tmax_std'', ''tmax_min'', ''tmax_max'']"
  "map (flat_name ''tmin'') [''mean'', ''std'', ''min'', ''max''] =
     [''tmin_mean'', ''tmin_std'', ''tmin_min'', ''tmin_max'']"
  by (simp_all add: flat_name_def strip_underscores_def)

text \<open>
  The claim as it stands fails: \<open>compute_temporal_aggregates\<close> aggregates with
  \<open>['mean', 'std', 'min', 'max']\<close>, so the annual table has no median column.
\<close>

theorem annual_statistics_counterexample:
  "map_sum id output_columns (prepare_for_gwas demo_tables ''annual'' False) =
     Inr [''accession_id'', ''year'',
          ''tmax_mean'', ''tmax_std'', ''tmax_min'', ''tmax_max'',
          ''tmin_mean'', ''tmin_std'', ''tmin_min'', ''tmin_max'']"
  by (simp add: prepare_annual[OF demo_merge] output_columns_def aggregate_def demo_merged_vars
      flat_name_def strip_underscores_def)

lemma demo_groups: "{g. \<exists>r\<in>set (rows demo_merged). by_accession r = Some g} = {[GStr ''a''], [GStr ''b'']}"
proof -
  have "map row_key (rows demo_merged) = [(''a'', 2000, 1), (''a'', 2000, 2), (''b'', 2000, 1)]"
    using demo_merged_rows[THEN arg_cong, of "map fst"] by (simp add: o_def)
  then have "row_key ` set (rows demo_merged) = {(''a'', 2000, 1), (''a'', 2000, 2), (''b'', 2000, 1)}"
    by (metis list.set(1) list.set(2) set_map)
  moreover have "{g. \<exists>r\<in>set (rows demo_merged). by_accession r = Some g} =
      (\<lambda>k. [GStr (fst k)]) ` (row_key ` set (rows demo_merged))"
    by (auto simp: by_accession_def image_iff)
  ultimately show ?thesis by simp
qed

theorem aggregation_modes_grouped_witness:
  "merge_variables_wide_format demo_tables = Inr demo_merged \<and>
   (\<exists>s a q.
      prepare_for_gwas demo_tables ''summary'' False = Inr (Aggregated s) \<and>
      prepare_for_gwas demo_tables ''annual'' False = Inr (Aggregated a) \<and>
      prepare_for_gwas demo_tables ''seasonal'' False = Inr (Aggregated q) \<and>
      distinct (map group (arows s)) \<and>
      set (map group (arows s)) = {[GStr ''a''], [GStr ''b'']} \<and>
      distinct (map group (arows a)) \<and>
      stat_columns a = [''tmax_mean'', ''tmax_std'', ''tmax_min'', ''tmax_max'',
                        ''tmin_mean'', ''tmin_std'', ''tmin_min'', ''tmin_max''])"
proof -
  have h2: "demo_merged = (if False then add_derived_climate_indices demo_merged else demo_merged)"
    by simp
  from aggregation_modes_grouped[OF demo_merge h2] obtain s a q where
        1: "prepare_for_gwas demo_tables ''summary'' False = Inr (Aggregated s)"
    and 2: "prepare_for_gwas demo_tables ''annual'' False = Inr (Aggregated a)"
    and 3: "prepare_for_gwas demo_tables ''seasonal'' False = Inr (Aggregated q)"
    and gs: "grouped by_accession [''mean'', ''std'', ''min'', ''max'', ''median'']
               (climate_vars_of demo_merged) demo_merged s"
    and ga: "grouped by_year [''mean'', ''std'', ''min'', ''max'']
               (climate_vars_of demo_merged) demo_merged a"
    by (elim exE conjE)
  note g = gs[unfolded grouped_def demo_groups]
  from g have 4: "distinct (map group (arows s))" by (elim conjE)
  from g have 5: "set (map group (arows s)) = {[GStr ''a''], [GStr ''b'']}" by (elim conjE)
  from ga have 6: "distinct (map group (arows a))"
    and 7: "stat_columns a = [''tmax_mean'', ''tmax_std'', ''tmax_min'', ''tmax_max'',
                        ''tmin_mean'', ''tmin_std'', ''tmin_min'', ''tmin_max'']"
    unfolding grouped_def demo_merged_vars
    by (simp_all add: flat_name_def strip_underscores_def)
  show ?thesis
    by (intro conjI demo_merge, rule exI[of _ s], rule exI[of _ a], rule exI[of _ q])
       (intro conjI 1 2 3 4 5 6 7)
qed

text \<open>
  The statistics of the monthly values 1, 2, 3, 4, and of a group with an infinite value.
\<close>

lemmas stat_eval = apply_stat_def stat_mean_def stat_std_def stat_min_def stat_max_def
  stat_median_def cell_sum_def cell_sub_def fval_min_def fval_max_def Let_def

lemma stats_example:
  "apply_stat ''mean'' [Num 1, Num 2, Num 3, Num 4] = Some (Num (5 / 2)) \<and>
   apply_stat ''min'' [Num 1, Num 2, Num 3, Num 4] = Some (Num 1) \<and>
   apply_stat ''max'' [Num 1, Num 2, Num 3, Num 4] = Some (Num 4) \<and>
   apply_stat ''median'' [Num 1, Num 2, Num 3, Num 4] = Some (Num (5 / 2))"
  by (simp add: stat_eval)

lemma stats_infinite_example:
  "apply_stat ''mean'' [Num 1, PInf] = Some PInf \<and>
   apply_stat ''std'' [Num 1, PInf] = None \<and>
   apply_stat ''min'' [Num 1, PInf] = Some (Num 1) \<and>
   apply_stat ''max'' [Num 1, PInf] = Some PInf"
  by (simp add: stat_eval)

subsection \<open>Aggregation modes\<close>

lemma prepare_for_gwas_empty:
  "prepare_for_gwas [] aggregation d = Inl (IndexError ''list index out of range'')"
  by (simp add: prepare_for_gwas_def merge_variables_wide_format_def)

lemma merge_nonempty:
  "variable_data \<noteq> [] \<Longrightarrow> \<exists>merged. merge_variables_wide_format variable_data = Inr merged"
  by (cases variable_data) (auto simp: merge_variables_wide_format_def)

lemma prepare_for_gwas_known:
  assumes "variable_data \<noteq> []" and "aggregation \<in> set aggregation_choices"
  shows "\<exists>t. prepare_for_gwas variable_data aggregation d = Inr t"
proof -
  from merge_nonempty[OF assms(1)] obtain merged where
    m: "merge_variables_wide_format variable_data = Inr merged" ..
  from assms(2) consider "aggregation = ''summary''" | "aggregation = ''annual''"
    | "aggregation = ''seasonal''" | "aggregation = ''monthly''"
    by (auto simp: aggregation_choices_def)
  then show ?thesis
    by cases (simp_all add: prepare_for_gwas_def m Let_def compute_temporal_aggregates_def)
qed

lemma prepare_for_gwas_unknown:
  assumes "aggregation \<notin> set aggregation_choices"
  shows "\<forall>t. prepare_for_gwas variable_data aggregation d \<noteq> Inr t"
    and "variable_data \<noteq> [] \<Longrightarrow> prepare_for_gwas variable_data aggregation d =
           Inl (ValueError (''Unknown aggregation type: '' @ aggregation))"
proof -
  from assms have ne: "aggregation \<noteq> ''summary''" "aggregation \<noteq> ''annual''"
    "aggregation \<noteq> ''seasonal''" "aggregation \<noteq> ''monthly''"
    by (auto simp: aggregation_choices_def)
  show "\<forall>t. prepare_for_gwas variable_data aggregation d \<noteq> Inr t"
    using ne by (simp add: prepare_for_gwas_def Let_def split: sum.splits)
  show "variable_data \<noteq> [] \<Longrightarrow> prepare_for_gwas variable_data aggregation d =
           Inl (ValueError (''Unknown aggregation type: '' @ aggregation))"
  proof -
    assume "variable_data \<noteq> []"
    from merge_nonempty[OF this] obtain merged where
      m: "merge_variables_wide_format variable_data = Inr merged" ..
    show ?thesis using ne by (simp add: prepare_for_gwas_def m Let_def)
  qed
qed

text \<open>
  Claim C9, as amended. For a non-empty dictionary of tables \<open>prepare_for_gwas\<close>
  returns a table exactly for the modes \<open>summary\<close>, \<open>annual\<close>, \<open>seasonal\<close> and
  \<open>monthly\<close>. For any other mode it never returns a table, and it raises the
  \<open>ValueError\<close> "Unknown aggregation type" once the tables are merged. In the program
  run from the command line such a mode does not reach \<open>prepare_for_gwas\<close>:
  \<open>parse_args\<close> ends the run with status 2 before any step is started, so before
  any extraction.
\<close>

theorem unknown_aggregation_rejected:
  "(variable_data \<noteq> [] \<longrightarrow>
      ((\<exists>t. prepare_for_gwas variable_data aggregation d = Inr t) \<longleftrightarrow>
         aggregation \<in> set [''summary'', ''annual'', ''seasonal'', ''monthly''])) \<and>
   (aggregation \<notin> set [''summary'', ''annual'', ''seasonal'', ''monthly''] \<longrightarrow>
      (\<forall>t. prepare_for_gwas variable_data aggregation d \<noteq> Inr t) \<and>
      (variable_data \<noteq> [] \<longrightarrow> prepare_for_gwas variable_data aggregation d =
           Inl (ValueError (''Unknown aggregation type: '' @ aggregation)))) \<and>
   (arg_aggregation given \<notin> set [''summary'', ''annual'', ''seasonal'', ''monthly''] \<longrightarrow>
      main validate_extraction given w = (2, []))"
proof (intro conjI impI)
  assume ne: "variable_data \<noteq> []"
  show "(\<exists>t. prepare_for_gwas variable_data aggregation d = Inr t) \<longleftrightarrow>
         aggregation \<in> set [''summary'', ''annual'', ''seasonal'', ''monthly'']"
    using prepare_for_gwas_known[OF ne, of aggregation d]
      prepare_for_gwas_unknown(1)[of aggregation variable_data d]
    unfolding aggregation_choices_def by blast
next
  assume u: "aggregation \<notin> set [''summary'', ''annual'', ''seasonal'', ''monthly'']"
  then show "\<forall>t. prepare_for_gwas variable_data aggregation d \<noteq> Inr t"
    using prepare_for_gwas_unknown(1)[of aggregation variable_data d]
    unfolding aggregation_choices_def by blast
  assume "variable_data \<noteq> []"
  with u show "prepare_for_gwas variable_data aggregation d =
           Inl (ValueError (''Unknown aggregation type: '' @ aggregation))"
    using prepare_for_gwas_unknown(2)[of aggregation variable_data d]
    unfolding aggregation_choices_def by blast
next
  assume "arg_aggregation given \<notin> set [''summary'', ''annual'', ''seasonal'', ''monthly'']"
  then show "main validate_extraction given w = (2, [])"
    by (simp add: main_def parse_args_def aggregation_choices_def)
qed

lemma demo_build:
  "build_spatial_index False demo_cell_world =
     (Inr [(''a'', (0, 0)), (''d'', (1, 0))], [''c''], demo_cell_world)"
  by (simp add: build_spatial_index_def load_accessions_def List.map_filter_def
      index_accessions_def index_step_def find_nearest_grid_cell_def matches_def
      SPATIAL_TOLERANCE_def CLIMATE_VARIABLES_def get_grid_coordinates_def
      demo_cell_world_def demo_cell_ds_def Let_def four_rows_def)

lemma demo_extract:
  "fst (extract_all_variables (Some [''tmax'', ''tmin'']) True True demo_cell_world) =
     Inr [(''tmax'', [(''a'', 2000, 1, Some (Num 0)), (''a'', 2000, 2, Some (Num 100)),
                      (''d'', 2000, 1, Some (Num 10)), (''d'', 2000, 2, Some (Num 110))]),
          (''tmin'', [(''a'', 2000, 1, Some (Num 0)), (''a'', 2000, 2, Some (Num 100)),
                      (''d'', 2000, 1, Some (Num 10)), (''d'', 2000, 2, Some (Num 110))])]"
  by (simp add: extract_all_variables_def extract_step_def extract_one_def
      extract_variable_sequential_def extract_timeseries_for_accession_def isel_def
      get_time_coordinates_def
      build_spatial_index_def load_accessions_def List.map_filter_def
      index_accessions_def index_step_def find_nearest_grid_cell_def matches_def
      SPATIAL_TOLERANCE_def CLIMATE_VARIABLES_def get_grid_coordinates_def
      demo_cell_world_def demo_cell_ds_def Let_def four_rows_def)


lemmas pipeline_eval = pipeline_def override_def demo_args_def main_def parse_args_def
  aggregation_choices_def format_choices_def
  prepare_for_gwas_def merge_variables_wide_format_def
  extract_all_variables_def extract_step_def extract_one_def
  extract_variable_sequential_def extract_timeseries_for_accession_def isel_def
  get_time_coordinates_def
  build_spatial_index_def load_accessions_def List.map_filter_def
  index_accessions_def index_step_def find_nearest_grid_cell_def matches_def
  SPATIAL_TOLERANCE_def CLIMATE_VARIABLES_def get_grid_coordinates_def
  demo_cell_world_def demo_cell_ds_def Let_def four_rows_def

text \<open>
  The claim as it stands fails: the rejection by \<open>prepare_for_gwas\<close> is its last
  statement, and the function works on extracted tables. When the pipeline hands it an
  unknown mode, the steps 1 to 3 (index, extraction, validation) have run when step 4
  fails; and on an empty dictionary the merge raises before the mode is looked at.
\<close>

theorem prepare_for_gwas_rejects_after_extraction:
  "pipeline (\<lambda>variable_data. None) (demo_args ''bogus'') demo_cell_world = (1, [1, 2, 3, 4]) \<and>
   prepare_for_gwas [] ''bogus'' True = Inl (IndexError ''list index out of range'')"
  by (simp add: pipeline_eval)

text \<open>With a known mode the same run goes through all five steps.\<close>

lemma main_summary:
  "main (\<lambda>variable_data. None) (demo_args ''summary'') demo_cell_world = (0, [1, 2, 3, 4, 5])"
  by (simp add: pipeline_eval)

theorem unknown_aggregation_rejected_witness:
  "demo_tables \<noteq> [] \<and>
   ''bogus'' \<notin> set [''summary'', ''annual'', ''seasonal'', ''monthly''] \<and>
   (\<exists>t. prepare_for_gwas demo_tables ''annual'' True = Inr t) \<and>
   prepare_for_gwas demo_tables ''bogus'' True =
     Inl (ValueError ''Unknown aggregation type: bogus'') \<and>
   main (\<lambda>variable_data. None) (demo_args ''bogus'') demo_cell_world = (2, [])"
proof -
  have h1: "demo_tables \<noteq> []" by (simp add: demo_tables_def)
  have h2: "''bogus'' \<notin> set [''summary'', ''annual'', ''seasonal'', ''monthly'']" by simp
  have h3: "''annual'' \<in> set [''summary'', ''annual'', ''seasonal'', ''monthly'']" by simp
  have h4: "arg_aggregation (demo_args ''bogus'')
      \<notin> set [''summary'', ''annual'', ''seasonal'', ''monthly'']"
    by (simp add: demo_args_def)
  note a = unknown_aggregation_rejected[where variable_data = demo_tables and aggregation = "''annual''" and d = True]
  note b = unknown_aggregation_rejected[where variable_data = demo_tables and aggregation = "''bogus''" and d = True
      and given = "demo_args ''bogus''" and validate_extraction = "\<lambda>variable_data. None"
      and w = demo_cell_world]
  from a[THEN conjunct1, rule_format, OF h1] h3
  have 1: "\<exists>t. prepare_for_gwas demo_tables ''annual'' True = Inr t" by (rule iffD2)
  from b[THEN conjunct2, THEN conjunct1, rule_format, OF h2, THEN conjunct2, rule_format, OF h1]
  have 2: "prepare_for_gwas demo_tables ''bogus'' True =
     Inl (ValueError ''Unknown aggregation type: bogus'')" by simp
  from b[THEN conjunct2, THEN conjunct2, rule_format, OF h4]
  have 3: "main (\<lambda>variable_data. None) (demo_args ''bogus'') demo_cell_world = (2, [])" .
  from h1 h2 1 2 3 show ?thesis by (intro conjI)
qed

end
